theory Spec2Isabelle
  imports Main
begin

section \<open>JavaScript values\<close>

text \<open>
  The two entry points (\<^verbatim>\<open>netlify/functions/convert.js\<close> and \<^verbatim>\<open>server.js\<close>) read request
  bodies and the conversion service's answers as parsed JSON. \<open>jsval\<close> is that data: an object
  is the list of its own properties (the first binding of a key is its value), numbers are
  integral. \<open>JUndefined\<close> is what reading a missing property gives.
\<close>

datatype jsval =
    JUndefined
  | JNull
  | JBool bool
  | JNum int
  | JStr string
  | JArr "jsval list"
  | JObj "(string \<times> jsval) list"

text \<open>
  What a \<^verbatim>\<open>throw\<close> carries. The first string of each constructor is the error's
  \<^verbatim>\<open>message\<close>. A \<open>TypeError\<close> is raised by the runtime (its message text is the engine's; the
  model puts a short tag in its place), a \<open>SyntaxError\<close> by \<^verbatim>\<open>JSON.parse\<close>; \<open>MulterError\<close> has a
  \<^verbatim>\<open>code\<close>; \<open>AxiosError\<close> has the upstream \<^verbatim>\<open>response\<close> (status and data) when there was one.
\<close>

datatype js_error =
    TypeError string
  | SyntaxError string
  | MulterError string string
  | AxiosError string "(nat \<times> jsval) option"
  | OtherError string

fun message :: "js_error \<Rightarrow> string" where
  "message (TypeError m) = m"
| "message (SyntaxError m) = m"
| "message (MulterError m c) = m"
| "message (AxiosError m r) = m"
| "message (OtherError m) = m"

text \<open>Truthiness, as \<^verbatim>\<open>!v\<close>, \<^verbatim>\<open>v || w\<close> and \<^verbatim>\<open>if (v)\<close> test it.\<close>

fun truthy :: "jsval \<Rightarrow> bool" where
  "truthy JUndefined = False"
| "truthy JNull = False"
| "truthy (JBool b) = b"
| "truthy (JNum n) = (n \<noteq> 0)"
| "truthy (JStr s) = (s \<noteq> [])"
| "truthy (JArr xs) = True"
| "truthy (JObj kvs) = True"

text \<open>\<^verbatim>\<open>v || w\<close>\<close>

definition js_or :: "jsval \<Rightarrow> jsval \<Rightarrow> jsval" where
  "js_or v w = (if truthy v then v else w)"

text \<open>
  \<^verbatim>\<open>v.k\<close> for the property names the source reads (\<^verbatim>\<open>fileUrl\<close>, \<^verbatim>\<open>target\<close>, \<^verbatim>\<open>data\<close>, \<^verbatim>\<open>id\<close>,
  \<^verbatim>\<open>tasks\<close>, \<^verbatim>\<open>name\<close>, \<^verbatim>\<open>status\<close>, \<^verbatim>\<open>result\<close>, \<^verbatim>\<open>files\<close>, \<^verbatim>\<open>form\<close>, \<^verbatim>\<open>url\<close>, \<^verbatim>\<open>parameters\<close>,
  \<^verbatim>\<open>filename\<close>, \<^verbatim>\<open>size\<close>, \<^verbatim>\<open>content_type\<close>): none of them is a built-in property of strings,
  numbers, booleans, arrays or plain objects, so only an object's own binding can answer.
  Reading a property of \<^verbatim>\<open>undefined\<close> or \<^verbatim>\<open>null\<close> throws.
\<close>

fun js_get :: "jsval \<Rightarrow> string \<Rightarrow> js_error + jsval" where
  "js_get JUndefined k = Inl (TypeError (''Cannot read properties of undefined: '' @ k))"
| "js_get JNull k = Inl (TypeError (''Cannot read properties of null: '' @ k))"
| "js_get (JObj kvs) k = Inr (case map_of kvs k of None \<Rightarrow> JUndefined | Some v \<Rightarrow> v)"
| "js_get v k = Inr JUndefined"

text \<open>\<^verbatim>\<open>v?.k\<close>: \<^verbatim>\<open>undefined\<close> when \<open>v\<close> is \<^verbatim>\<open>undefined\<close> or \<^verbatim>\<open>null\<close>.\<close>

fun js_opt_get :: "jsval \<Rightarrow> string \<Rightarrow> jsval" where
  "js_opt_get (JObj kvs) k = (case map_of kvs k of None \<Rightarrow> JUndefined | Some v \<Rightarrow> v)"
| "js_opt_get v k = JUndefined"

text \<open>
  \<^verbatim>\<open>v[0]\<close>: the first element of an array, the first character of a string, the property
  \<^verbatim>\<open>"0"\<close> of an object; \<^verbatim>\<open>undefined\<close> when there is none.
\<close>

fun js_index0 :: "jsval \<Rightarrow> js_error + jsval" where
  "js_index0 JUndefined = Inl (TypeError ''Cannot read properties of undefined: 0'')"
| "js_index0 JNull = Inl (TypeError ''Cannot read properties of null: 0'')"
| "js_index0 (JArr xs) = Inr (case xs of [] \<Rightarrow> JUndefined | x # _ \<Rightarrow> x)"
| "js_index0 (JStr s) = Inr (case s of [] \<Rightarrow> JUndefined | c # _ \<Rightarrow> JStr [c])"
| "js_index0 (JObj kvs) = Inr (case map_of kvs ''0'' of None \<Rightarrow> JUndefined | Some v \<Rightarrow> v)"
| "js_index0 v = Inr JUndefined"

text \<open>\<^verbatim>\<open>v?.[0]\<close>\<close>

fun js_opt_index0 :: "jsval \<Rightarrow> jsval" where
  "js_opt_index0 (JArr xs) = (case xs of [] \<Rightarrow> JUndefined | x # _ \<Rightarrow> x)"
| "js_opt_index0 (JStr s) = (case s of [] \<Rightarrow> JUndefined | c # _ \<Rightarrow> JStr [c])"
| "js_opt_index0 (JObj kvs) = (case map_of kvs ''0'' of None \<Rightarrow> JUndefined | Some v \<Rightarrow> v)"
| "js_opt_index0 v = JUndefined"

text \<open>
  \<^verbatim>\<open>Array.prototype.find\<close> with a callback that may throw: the first element the callback
  accepts, \<^verbatim>\<open>undefined\<close> when it accepts none.
\<close>

fun array_find :: "(jsval \<Rightarrow> js_error + bool) \<Rightarrow> jsval list \<Rightarrow> js_error + jsval" where
  "array_find p [] = Inr JUndefined"
| "array_find p (t # ts) =
     (case p t of
        Inl e \<Rightarrow> Inl e
      | Inr True \<Rightarrow> Inr t
      | Inr False \<Rightarrow> array_find p ts)"

text \<open>
  \<^verbatim>\<open>v.find(p)\<close>: only an array has the method; on \<^verbatim>\<open>undefined\<close> and \<^verbatim>\<open>null\<close> the property read
  throws, on any other value the call of a non-function does.
\<close>

fun js_find :: "jsval \<Rightarrow> (jsval \<Rightarrow> js_error + bool) \<Rightarrow> js_error + jsval" where
  "js_find (JArr ts) p = array_find p ts"
| "js_find JUndefined p = Inl (TypeError ''Cannot read properties of undefined: find'')"
| "js_find JNull p = Inl (TypeError ''Cannot read properties of null: find'')"
| "js_find v p = Inl (TypeError ''find is not a function'')"

text \<open>\<^verbatim>\<open>v?.find(p)\<close>\<close>

fun js_opt_find :: "jsval \<Rightarrow> (jsval \<Rightarrow> js_error + bool) \<Rightarrow> js_error + jsval" where
  "js_opt_find (JArr ts) p = array_find p ts"
| "js_opt_find JUndefined p = Inr JUndefined"
| "js_opt_find JNull p = Inr JUndefined"
| "js_opt_find v p = Inl (TypeError ''find is not a function'')"

text \<open>
  \<^verbatim>\<open>String.prototype.toLowerCase\<close> on the ASCII letters (the case mapping of code points
  beyond ASCII is not modelled).
\<close>

definition lower_char :: "char \<Rightarrow> char" where
  "lower_char c =
     (if 65 \<le> (of_char c :: nat) \<and> (of_char c :: nat) \<le> 90
      then char_of ((of_char c :: nat) + 32) else c)"

definition toLowerCase :: "string \<Rightarrow> string" where
  "toLowerCase s = map lower_char s"

text \<open>\<^verbatim>\<open>v.toLowerCase()\<close> on a value: only strings have the method.\<close>

fun call_toLowerCase :: "jsval \<Rightarrow> js_error + string" where
  "call_toLowerCase (JStr s) = Inr (toLowerCase s)"
| "call_toLowerCase JUndefined = Inl (TypeError ''Cannot read properties of undefined: toLowerCase'')"
| "call_toLowerCase JNull = Inl (TypeError ''Cannot read properties of null: toLowerCase'')"
| "call_toLowerCase v = Inl (TypeError ''toLowerCase is not a function'')"

section \<open>Validation gate (\<^verbatim>\<open>server.js\<close>)\<close>

text \<open>Own properties of \<^verbatim>\<open>CONVERSION_MAP\<close>: source mime to allowed target formats.\<close>

definition CONVERSION_MAP :: "(string \<times> string list) list" where
  "CONVERSION_MAP =
     [(''application/pdf'', [''docx'', ''png'']),
      (''application/msword'', [''pdf'', ''docx'']),
      (''application/vnd.openxmlformats-officedocument.wordprocessingml.document'', [''pdf'']),
      (''image/jpeg'', [''png'', ''webp'', ''jpg'']),
      (''image/png'', [''jpg'', ''webp'', ''pdf'', ''png'']),
      (''image/webp'', [''jpg'', ''png'']),
      (''text/plain'', [''pdf''])]"

text \<open>
  \<^verbatim>\<open>CONVERSION_MAP\<close> is an object literal, so a lookup that finds no own property goes on to
  \<^verbatim>\<open>Object.prototype\<close>. These are the names it answers; each value is a function (for
  \<^verbatim>\<open>__proto__\<close> the prototype object): truthy, and without an \<^verbatim>\<open>includes\<close> method.
\<close>

definition Object_prototype_names :: "string list" where
  "Object_prototype_names =
     [''constructor'', ''__defineGetter__'', ''__defineSetter__'', ''hasOwnProperty'',
      ''__lookupGetter__'', ''__lookupSetter__'', ''isPrototypeOf'', ''propertyIsEnumerable'',
      ''toString'', ''valueOf'', ''__proto__'', ''toLocaleString'']"

datatype table_entry = Absent | Targets "string list" | Inherited

text \<open>\<^verbatim>\<open>CONVERSION_MAP[mime]\<close>\<close>

definition CONVERSION_MAP_get :: "string \<Rightarrow> table_entry" where
  "CONVERSION_MAP_get mime =
     (case map_of CONVERSION_MAP mime of
        Some allowed \<Rightarrow> Targets allowed
      | None \<Rightarrow> if mime \<in> set Object_prototype_names then Inherited else Absent)"

text \<open>
  \<^verbatim>\<open>isTargetAllowed(mime, target)\<close>. \<^verbatim>\<open>CONVERSION_MAP[mime] || []\<close> replaces only a missing entry
  by the empty list; on an inherited value \<^verbatim>\<open>allowed.includes\<close> is \<^verbatim>\<open>undefined\<close> and calling it
  throws. The target is a string (the route handler passes the lower-cased field), for which
  \<^verbatim>\<open>String(target || '')\<close> is the string itself.
\<close>

definition isTargetAllowed :: "string \<Rightarrow> string \<Rightarrow> js_error + bool" where
  "isTargetAllowed mime target =
     (case CONVERSION_MAP_get mime of
        Absent \<Rightarrow> Inr (toLowerCase target \<in> set [])
      | Targets allowed \<Rightarrow> Inr (toLowerCase target \<in> set allowed)
      | Inherited \<Rightarrow> Inl (TypeError ''allowed.includes is not a function''))"

section \<open>What a request may do to the outside\<close>

text \<open>
  The process environment (\<^verbatim>\<open>process.env\<close>): the credential of the conversion service and the
  upload limit (a numeric setting; \<^verbatim>\<open>None\<close> is an unset variable).
\<close>

record process_env =
  CLOUDCONVERT_API_KEY :: "string option"
  MAX_FILE_SIZE_MB_var :: "nat option"

text \<open>
  The file part of a multipart request as multer hands it over: \<^verbatim>\<open>req.file\<close> with its
  \<^verbatim>\<open>buffer\<close> of bytes (\<^verbatim>\<open>size\<close> is the buffer's length).
\<close>

record file_part =
  originalname :: string
  mimetype :: string
  buffer :: string

text \<open>
  Every call that leaves the process, and the timer, in the order a request issues them:
  \<^item> \<open>PostJobs key url target\<close>: \<^verbatim>\<open>axios.post\<close> to \<^verbatim>\<open>/v2/jobs\<close> of \<^verbatim>\<open>convert.js\<close>, with the
    bearer key, the import URL and the output format;
  \<^item> \<open>Sleep ms\<close>: \<^verbatim>\<open>setTimeout(r, ms)\<close> awaited;
  \<^item> \<open>GetJob key id\<close>: \<^verbatim>\<open>axios.get\<close> of \<^verbatim>\<open>/v2/jobs/${jobId}\<close>;
  \<^item> \<open>JobsCreate key target\<close>: \<^verbatim>\<open>cloudConvert.jobs.create\<close> of \<^verbatim>\<open>server.js\<close>, through the client
    built at startup from the environment's key (which may be missing);
  \<^item> \<open>UploadPost url fields file\<close>: the multipart form built from the upload fields and the
    file, posted with \<^verbatim>\<open>axios.post\<close> to the signed URL;
  \<^item> \<open>JobsWait id\<close>: \<^verbatim>\<open>cloudConvert.jobs.wait\<close>.
\<close>

datatype effect =
    PostJobs string jsval jsval
  | Sleep nat
  | GetJob string jsval
  | JobsCreate "string option" string
  | UploadPost jsval jsval file_part
  | JobsWait jsval

text \<open>
  What the outside answers. For \<^verbatim>\<open>convert.js\<close>: \<open>axios_post\<close> is the outcome of the job
  creation and \<open>axios_get i\<close> of the status fetch of attempt \<open>i\<close>; \<open>Inr\<close> carries the response
  body (\<^verbatim>\<open>jobRes.data\<close>, \<^verbatim>\<open>j.data\<close>), \<open>Inl\<close> is what the call throws (axios throws on a
  transport failure and on a status outside 2xx).
\<close>

record url_service =
  axios_post :: "js_error + jsval"
  axios_get :: "nat \<Rightarrow> js_error + jsval"

text \<open>
  For \<^verbatim>\<open>server.js\<close>: the job that \<^verbatim>\<open>jobs.create\<close> returns, whether building and posting the
  upload form throws, and the job that \<^verbatim>\<open>jobs.wait\<close> returns.
\<close>

record upload_service =
  jobs_create :: "js_error + jsval"
  upload_post :: "js_error option"
  jobs_wait :: "js_error + jsval"

text \<open>
  An HTTP answer: the status and the value given to \<^verbatim>\<open>JSON.stringify\<close> (\<^verbatim>\<open>convert.js\<close>) or
  \<^verbatim>\<open>res.json\<close> (\<^verbatim>\<open>server.js\<close>). A member that is \<^verbatim>\<open>undefined\<close> is left out of the text sent.
\<close>

record response =
  statusCode :: nat
  json :: jsval

text \<open>\<^verbatim>\<open>t => t.name === name\<close>\<close>

definition is_named :: "string \<Rightarrow> jsval \<Rightarrow> js_error + bool" where
  "is_named name t =
     (case js_get t ''name'' of
        Inl e \<Rightarrow> Inl e
      | Inr n \<Rightarrow> Inr (n = JStr name))"

text \<open>\<^verbatim>\<open>t => t.name === "export-1" && t.status === "finished"\<close>\<close>

definition is_finished_export :: "jsval \<Rightarrow> js_error + bool" where
  "is_finished_export t =
     (case js_get t ''name'' of
        Inl e \<Rightarrow> Inl e
      | Inr n \<Rightarrow>
          if n = JStr ''export-1''
          then (case js_get t ''status'' of
                  Inl e \<Rightarrow> Inl e
                | Inr s \<Rightarrow> Inr (s = JStr ''finished''))
          else Inr False)"

text \<open>
  The four members both entry points build from the output file:
  \<^verbatim>\<open>downloadUrl: f.url, filename: f.filename, sizeBytes: f.size, contentType: f.content_type\<close>.
\<close>

definition result_fields :: "jsval \<Rightarrow> js_error + (string \<times> jsval) list" where
  "result_fields f =
     (case js_get f ''url'' of
        Inl e \<Rightarrow> Inl e
      | Inr u \<Rightarrow>
     (case js_get f ''filename'' of
        Inl e \<Rightarrow> Inl e
      | Inr n \<Rightarrow>
     (case js_get f ''size'' of
        Inl e \<Rightarrow> Inl e
      | Inr s \<Rightarrow>
     (case js_get f ''content_type'' of
        Inl e \<Rightarrow> Inl e
      | Inr c \<Rightarrow>
          Inr [(''downloadUrl'', u), (''filename'', n), (''sizeBytes'', s),
               (''contentType'', c)]))))"

section \<open>Remote-URL mode (\<^verbatim>\<open>netlify/functions/convert.js\<close>)\<close>

text \<open>
  The request: its verb and its body, given by what \<^verbatim>\<open>JSON.parse(event.body || "{}")\<close> makes
  of it: no body (the text \<^verbatim>\<open>"{}"\<close> is parsed), a text that is not JSON, or a JSON text with its
  value.
\<close>

datatype event_body = NoBody | BadJson | Json jsval

record event =
  httpMethod :: string
  body :: event_body

fun JSON_parse :: "event_body \<Rightarrow> js_error + jsval" where
  "JSON_parse NoBody = Inr (JObj [])"
| "JSON_parse BadJson = Inl (SyntaxError ''Unexpected token in JSON'')"
| "JSON_parse (Json v) = Inr v"

text \<open>
  Lines 36 and 37, on the body of one status answer: the value of
  \<^verbatim>\<open>exportTask?.result?.files?.[0]\<close>, where \<^verbatim>\<open>exportTask\<close> is the first task named
  \<^verbatim>\<open>"export-1"\<close> with status \<^verbatim>\<open>"finished"\<close>.
\<close>

definition export_file :: "jsval \<Rightarrow> js_error + jsval" where
  "export_file jdata =
     (case js_opt_find (js_opt_get (js_opt_get jdata ''data'') ''tasks'') is_finished_export of
        Inl e \<Rightarrow> Inl e
      | Inr exportTask \<Rightarrow>
          Inr (js_opt_index0 (js_opt_get (js_opt_get exportTask ''result'') ''files'')))"

text \<open>Line 41: \<^verbatim>\<open>j.data?.data?.status === "error"\<close>\<close>

definition job_failed :: "jsval \<Rightarrow> bool" where
  "job_failed jdata = (js_opt_get (js_opt_get jdata ''data'') ''status'' = JStr ''error'')"

text \<open>
  The polling loop \<^verbatim>\<open>for (let i = 0; i < 40 && !done; i++)\<close> from the state \<open>(i, done, fileOut)\<close>:
  what it leaves in \<^verbatim>\<open>fileOut\<close> (or what it throws), and the sleeps and fetches it made.
\<close>

function poll ::
  "(nat \<Rightarrow> js_error + jsval) \<Rightarrow> string \<Rightarrow> jsval \<Rightarrow> nat \<Rightarrow> bool \<Rightarrow> jsval
     \<Rightarrow> (js_error + jsval) \<times> effect list" where
  "poll get apiKey jobId i done fileOut =
     (if i < 40 \<and> \<not> done then
        (case get i of
           Inl e \<Rightarrow> (Inl e, [Sleep 1500, GetJob apiKey jobId])
         | Inr jdata \<Rightarrow>
             (case export_file jdata of
                Inl e \<Rightarrow> (Inl e, [Sleep 1500, GetJob apiKey jobId])
              | Inr file0 \<Rightarrow>
                  if job_failed jdata
                  then (Inr (if truthy file0 then file0 else fileOut),
                        [Sleep 1500, GetJob apiKey jobId])
                  else apsnd (\<lambda>tr. Sleep 1500 # GetJob apiKey jobId # tr)
                         (poll get apiKey jobId (i + 1)
                            (if truthy file0 then True else done)
                            (if truthy file0 then file0 else fileOut))))
      else (Inr fileOut, []))"
  by pat_completeness auto
termination
  by (relation "measure (\<lambda>(get, apiKey, jobId, i, done, fileOut). 40 - i)") auto

declare poll.simps [simp del]

text \<open>The body of the \<^verbatim>\<open>try\<close> block of \<^verbatim>\<open>handler\<close>.\<close>

definition handler_try ::
  "process_env \<Rightarrow> url_service \<Rightarrow> event \<Rightarrow> (js_error + response) \<times> effect list" where
  "handler_try env svc ev =
     (if httpMethod ev \<noteq> ''POST''
      then (Inr \<lparr>statusCode = 405, json = JObj [(''error'', JStr ''Use POST'')]\<rparr>, [])
      else
     (case JSON_parse (body ev) of
        Inl e \<Rightarrow> (Inl e, [])
      | Inr parsed \<Rightarrow>
     (case js_get parsed ''fileUrl'' of
        Inl e \<Rightarrow> (Inl e, [])
      | Inr fileUrl \<Rightarrow>
     (case js_get parsed ''target'' of
        Inl e \<Rightarrow> (Inl e, [])
      | Inr target \<Rightarrow>
          if \<not> truthy fileUrl \<or> \<not> truthy target
          then (Inr \<lparr>statusCode = 400,
                     json = JObj [(''error'', JStr ''Provide fileUrl and target'')]\<rparr>, [])
          else
     (case CLOUDCONVERT_API_KEY env of
        None \<Rightarrow>
          (Inr \<lparr>statusCode = 500,
                json = JObj [(''error'', JStr ''Missing CLOUDCONVERT_API_KEY'')]\<rparr>, [])
      | Some apiKey \<Rightarrow>
          if apiKey = []
          then (Inr \<lparr>statusCode = 500,
                     json = JObj [(''error'', JStr ''Missing CLOUDCONVERT_API_KEY'')]\<rparr>, [])
          else
     (case axios_post svc of
        Inl e \<Rightarrow> (Inl e, [PostJobs apiKey fileUrl target])
      | Inr jobRes_data \<Rightarrow>
          if \<not> truthy (js_opt_get (js_opt_get jobRes_data ''data'') ''id'')
          then (Inr \<lparr>statusCode = 500,
                     json = JObj [(''error'', JStr ''Failed to create job'')]\<rparr>,
                [PostJobs apiKey fileUrl target])
          else
     (case poll (axios_get svc) apiKey (js_opt_get (js_opt_get jobRes_data ''data'') ''id'')
             0 False JNull of
        (Inl e, tr) \<Rightarrow> (Inl e, PostJobs apiKey fileUrl target # tr)
      | (Inr fileOut, tr) \<Rightarrow>
          if \<not> truthy fileOut
          then (Inr \<lparr>statusCode = 500,
                     json = JObj [(''error'', JStr ''Conversion not finished or failed'')]\<rparr>,
                PostJobs apiKey fileUrl target # tr)
          else
     (case result_fields fileOut of
        Inl e \<Rightarrow> (Inl e, PostJobs apiKey fileUrl target # tr)
      | Inr members \<Rightarrow>
          (Inr \<lparr>statusCode = 200, json = JObj members\<rparr>,
           PostJobs apiKey fileUrl target # tr)))))))))"

text \<open>\<^verbatim>\<open>handler\<close>: the \<^verbatim>\<open>try\<close> block, and the \<^verbatim>\<open>catch\<close> that answers whatever was thrown.\<close>

definition handler :: "process_env \<Rightarrow> url_service \<Rightarrow> event \<Rightarrow> response \<times> effect list" where
  "handler env svc ev =
     (case handler_try env svc ev of
        (Inl e, tr) \<Rightarrow>
          (\<lparr>statusCode = 500,
            json = JObj [(''error'', JStr ''Server error''), (''details'', JStr (message e))]\<rparr>,
           tr)
      | (Inr r, tr) \<Rightarrow> (r, tr))"

section \<open>Upload mode (\<^verbatim>\<open>server.js\<close>)\<close>

text \<open>
  \<^verbatim>\<open>Number(process.env.MAX_FILE_SIZE_MB || 25)\<close>
\<close>

definition MAX_FILE_SIZE_MB :: "process_env \<Rightarrow> nat" where
  "MAX_FILE_SIZE_MB env = (case MAX_FILE_SIZE_MB_var env of None \<Rightarrow> 25 | Some n \<Rightarrow> n)"

text \<open>
  Startup, lines 67 to 71: a missing credential is only warned about; the client is built
  with whatever the environment holds. The list is what \<^verbatim>\<open>console.warn\<close> prints.
\<close>

definition startup_warnings :: "process_env \<Rightarrow> string list" where
  "startup_warnings env =
     (case CLOUDCONVERT_API_KEY env of
        None \<Rightarrow> [''[WARN] CLOUDCONVERT_API_KEY is missing. Set it in your .env'']
      | Some apiKey \<Rightarrow>
          if apiKey = []
          then [''[WARN] CLOUDCONVERT_API_KEY is missing. Set it in your .env'']
          else [])"

text \<open>The \<^verbatim>\<open>banned\<close> list of \<^verbatim>\<open>fileFilter\<close>.\<close>

definition banned :: "string list" where
  "banned =
     [''application/x-msdownload'',
      ''application/x-dosexec'',
      ''application/x-executable'',
      ''application/x-sh'',
      ''application/x-binary'']"

text \<open>
  \<^verbatim>\<open>fileFilter\<close>: \<open>Inl\<close> is \<^verbatim>\<open>cb(err)\<close>, \<open>Inr True\<close> is \<^verbatim>\<open>cb(null, true)\<close>.
\<close>

definition fileFilter :: "file_part \<Rightarrow> js_error + bool" where
  "fileFilter file =
     (if mimetype file \<in> set banned
      then Inl (OtherError ''Unsupported file type for security reasons.'')
      else Inr True)"

text \<open>
  A multipart request: the part sent in the field \<^verbatim>\<open>file\<close>, if there is one, and the text
  fields, as the object multer leaves in \<^verbatim>\<open>req.body\<close>.
\<close>

record upload_request =
  file_field :: "file_part option"
  req_body :: jsval

text \<open>
  The middleware \<^verbatim>\<open>upload.single('file')\<close> as configured on lines 32 to 47: multer offers the
  part to \<^verbatim>\<open>fileFilter\<close> when it starts, then stores it in memory up to \<^verbatim>\<open>limits.fileSize\<close>
  bytes. \<open>Inl\<close> is the error it passes to \<^verbatim>\<open>next\<close>; \<open>Inr\<close> is \<^verbatim>\<open>req.file\<close>.
\<close>

definition upload_single :: "process_env \<Rightarrow> upload_request \<Rightarrow> js_error + file_part option" where
  "upload_single env req =
     (case file_field req of
        None \<Rightarrow> Inr None
      | Some file \<Rightarrow>
          (case fileFilter file of
             Inl e \<Rightarrow> Inl e
           | Inr accepted \<Rightarrow>
               if length (buffer file) > MAX_FILE_SIZE_MB env * 1024 * 1024
               then Inl (MulterError ''File too large'' ''LIMIT_FILE_SIZE'')
               else Inr (Some file)))"

text \<open>\<^verbatim>\<open>badRequest(res, msg, details)\<close> and \<^verbatim>\<open>serverError(res, msg, details)\<close>\<close>

definition badRequest :: "string \<Rightarrow> jsval \<Rightarrow> response" where
  "badRequest msg details =
     \<lparr>statusCode = 400,
      json = JObj ((''error'', JStr msg) # (if truthy details then [(''details'', details)] else []))\<rparr>"

definition serverError :: "string \<Rightarrow> jsval \<Rightarrow> response" where
  "serverError msg details =
     \<lparr>statusCode = 500,
      json = JObj ((''error'', JStr (if msg \<noteq> [] then msg else ''Internal server error''))
                   # (if truthy details then [(''details'', details)] else []))\<rparr>"

text \<open>A table entry as it is put into a response.\<close>

fun entry_json :: "table_entry \<Rightarrow> jsval" where
  "entry_json (Targets allowed) = JArr (map JStr allowed)"
| "entry_json e = JUndefined"

text \<open>Lines 146 to 162: from the job that \<^verbatim>\<open>jobs.wait\<close> returned to the answer.\<close>

definition after_wait :: "file_part \<Rightarrow> string \<Rightarrow> jsval \<Rightarrow> js_error + response" where
  "after_wait file target completedJob =
     (case js_get completedJob ''tasks'' of
        Inl e \<Rightarrow> Inl e
      | Inr tasks \<Rightarrow>
     (case js_find tasks is_finished_export of
        Inl e \<Rightarrow> Inl e
      | Inr exportTask \<Rightarrow>
          if \<not> truthy exportTask
          then Inr (serverError ''Conversion finished, but no output file was provided.'' JUndefined)
          else
     (case js_get exportTask ''result'' of
        Inl e \<Rightarrow> Inl e
      | Inr result \<Rightarrow>
          if \<not> truthy result
          then Inr (serverError ''Conversion finished, but no output file was provided.'' JUndefined)
          else
     (case js_get result ''files'' of
        Inl e \<Rightarrow> Inl e
      | Inr files \<Rightarrow>
          if \<not> truthy files
          then Inr (serverError ''Conversion finished, but no output file was provided.'' JUndefined)
          else
     (case js_index0 files of
        Inl e \<Rightarrow> Inl e
      | Inr fileInfo \<Rightarrow>
          if \<not> truthy fileInfo
          then Inr (serverError ''Conversion finished, but no output file was provided.'' JUndefined)
          else
     (case result_fields fileInfo of
        Inl e \<Rightarrow> Inl e
      | Inr members \<Rightarrow>
          Inr \<lparr>statusCode = 200,
               json = JObj (members @
                 [(''meta'', JObj
                    [(''original'', JObj
                       [(''name'', JStr (originalname file)),
                        (''mime'', JStr (mimetype file)),
                        (''size'', JNum (int (length (buffer file))))]),
                     (''target'', JStr target)])])\<rparr>))))))"

text \<open>Lines 126 to 162: from the job that \<^verbatim>\<open>jobs.create\<close> returned.\<close>

definition after_create ::
  "upload_service \<Rightarrow> file_part \<Rightarrow> string \<Rightarrow> jsval \<Rightarrow> (js_error + response) \<times> effect list" where
  "after_create svc file target job =
     (case js_get job ''tasks'' of
        Inl e \<Rightarrow> (Inl e, [])
      | Inr tasks \<Rightarrow>
     (case js_find tasks (is_named ''import-1'') of
        Inl e \<Rightarrow> (Inl e, [])
      | Inr importTask \<Rightarrow>
          if \<not> truthy importTask
          then (Inr (serverError ''Failed to initialize upload with conversion service.'' JUndefined), [])
          else
     (case js_get importTask ''result'' of
        Inl e \<Rightarrow> (Inl e, [])
      | Inr result \<Rightarrow>
          if \<not> truthy result
          then (Inr (serverError ''Failed to initialize upload with conversion service.'' JUndefined), [])
          else
     (case js_get result ''form'' of
        Inl e \<Rightarrow> (Inl e, [])
      | Inr form \<Rightarrow>
     (case js_get form ''url'' of
        Inl e \<Rightarrow> (Inl e, [])
      | Inr uploadUrl \<Rightarrow>
     (case js_get form ''parameters'' of
        Inl e \<Rightarrow> (Inl e, [])
      | Inr parameters \<Rightarrow>
     (case upload_post svc of
        Some e \<Rightarrow> (Inl e, [UploadPost uploadUrl (js_or parameters (JObj [])) file])
      | None \<Rightarrow>
     (case js_get job ''id'' of
        Inl e \<Rightarrow> (Inl e, [UploadPost uploadUrl (js_or parameters (JObj [])) file])
      | Inr job_id \<Rightarrow>
     (case jobs_wait svc of
        Inl e \<Rightarrow> (Inl e, [UploadPost uploadUrl (js_or parameters (JObj [])) file, JobsWait job_id])
      | Inr completedJob \<Rightarrow>
          (after_wait file target completedJob,
           [UploadPost uploadUrl (js_or parameters (JObj [])) file, JobsWait job_id]))))))))))"

text \<open>The body of the \<^verbatim>\<open>try\<close> block of the route handler (lines 93 to 162).\<close>

definition convert_try ::
  "process_env \<Rightarrow> upload_service \<Rightarrow> file_part option \<Rightarrow> jsval
     \<Rightarrow> (js_error + response) \<times> effect list" where
  \<open>convert_try env svc req_file text_fields =
     (case req_file of
        None \<Rightarrow> (Inr (badRequest ''No file uploaded. Use field name "file".'' JUndefined), [])
      | Some file \<Rightarrow>
     (case call_toLowerCase (js_or (js_opt_get text_fields ''target'') (JStr [])) of
        Inl e \<Rightarrow> (Inl e, [])
      | Inr target \<Rightarrow>
          if target = []
          then (Inr (badRequest
                  ''Missing target format. Include a "target" field (e.g., pdf, docx, png).''
                  JUndefined), [])
          else if CONVERSION_MAP_get (mimetype file) = Absent
          then (Inr (badRequest ''This file type is not supported yet.''
                  (JObj [(''receivedMime'', JStr (mimetype file)),
                         (''supportedMimes'', JArr (map (\<lambda>kv. JStr (fst kv)) CONVERSION_MAP))])), [])
          else
     (case isTargetAllowed (mimetype file) target of
        Inl e \<Rightarrow> (Inl e, [])
      | Inr allowed \<Rightarrow>
          if \<not> allowed
          then (Inr (badRequest ''Target format not allowed for this file type.''
                  (JObj [(''sourceMime'', JStr (mimetype file)),
                         (''allowedTargets'', entry_json (CONVERSION_MAP_get (mimetype file)))])), [])
          else
     (case jobs_create svc of
        Inl e \<Rightarrow> (Inl e, [JobsCreate (CLOUDCONVERT_API_KEY env) target])
      | Inr job \<Rightarrow>
          apsnd (\<lambda>tr. JobsCreate (CLOUDCONVERT_API_KEY env) target # tr)
            (after_create svc file target job)))))\<close>

text \<open>Decimal digits of a number, as a template literal prints it.\<close>

fun digits :: "nat \<Rightarrow> string" where
  "digits n =
     (if n < 10 then [char_of (48 + n)]
      else digits (n div 10) @ [char_of (48 + n mod 10)])"

text \<open>The \<^verbatim>\<open>catch\<close> block of the route handler (lines 163 to 183).\<close>

fun convert_catch :: "process_env \<Rightarrow> js_error \<Rightarrow> response" where
  "convert_catch env (MulterError m code) =
     (if code = ''LIMIT_FILE_SIZE''
      then badRequest (''Max file size is '' @ digits (MAX_FILE_SIZE_MB env) @ ''MB.'') JUndefined
      else badRequest ''Upload error.'' (JObj [(''code'', JStr code), (''message'', JStr m)]))"
| "convert_catch env (AxiosError m resp) =
     (let status = (case resp of None \<Rightarrow> 500 | Some (st, d) \<Rightarrow> if st = 0 then 500 else st)
      in \<lparr>statusCode = (if 400 \<le> status \<and> status < 600 then status else 500),
          json = JObj
            [(''error'', JStr ''Upstream conversion error.''),
             (''details'', JObj
                [(''status'', JNum (int status)),
                 (''data'', (case resp of None \<Rightarrow> JNull | Some (st, d) \<Rightarrow> js_or d JNull))])]\<rparr>)"
| "convert_catch env e =
     serverError ''Unexpected server error.'' (JObj [(''message'', JStr (message e))])"

text \<open>The route handler of \<^verbatim>\<open>POST /api/convert\<close>.\<close>

definition convert_route ::
  "process_env \<Rightarrow> upload_service \<Rightarrow> file_part option \<Rightarrow> jsval \<Rightarrow> response \<times> effect list" where
  "convert_route env svc req_file text_fields =
     (case convert_try env svc req_file text_fields of
        (Inl e, tr) \<Rightarrow> (convert_catch env e, tr)
      | (Inr r, tr) \<Rightarrow> (r, tr))"

text \<open>
  \<^verbatim>\<open>app.post('/api/convert', upload.single('file'), ...)\<close>: an error of the middleware skips
  the route handler and reaches the final error handler (lines 189 to 192).
\<close>

definition api_convert ::
  "process_env \<Rightarrow> upload_service \<Rightarrow> upload_request \<Rightarrow> response \<times> effect list" where
  "api_convert env svc req =
     (case upload_single env req of
        Inl err \<Rightarrow> (\<lparr>statusCode = 500, json = JObj [(''error'', JStr ''Unhandled error'')]\<rparr>, [])
      | Inr req_file \<Rightarrow> convert_route env svc req_file (req_body req))"

section \<open>Notions the properties are stated with\<close>

text \<open>The status fetches among the effects of a request.\<close>

fun is_fetch :: "effect \<Rightarrow> bool" where
  "is_fetch (GetJob k j) = True"
| "is_fetch e = False"

definition fetches :: "effect list \<Rightarrow> nat" where
  "fetches tr = length (filter is_fetch tr)"

text \<open>
  How one polling attempt can turn out. \<open>found_file\<close>: the answer shows the export task
  finished with an output file. \<open>status_error\<close>: the answer shows the job's status
  \<^verbatim>\<open>"error"\<close>. \<open>quiet\<close>: the fetch returned and its answer shows neither, so the loop goes on.
\<close>

definition found_file :: "js_error + jsval \<Rightarrow> bool" where
  "found_file r =
     (case r of
        Inl e \<Rightarrow> False
      | Inr jdata \<Rightarrow> (case export_file jdata of Inl e \<Rightarrow> False | Inr file0 \<Rightarrow> truthy file0))"


definition quiet :: "js_error + jsval \<Rightarrow> bool" where
  "quiet r =
     (case r of
        Inl e \<Rightarrow> False
      | Inr jdata \<Rightarrow>
          (case export_file jdata of
             Inl e \<Rightarrow> False
           | Inr file0 \<Rightarrow> \<not> truthy file0 \<and> \<not> job_failed jdata))"

text \<open>
  The same three outcomes read off the answer itself, without the loop's own tests.
  \<open>shows_error\<close>: the fetch returned and the answer's \<^verbatim>\<open>data.status\<close> is \<^verbatim>\<open>"error"\<close>.
  \<open>finished_export\<close>: a task named \<^verbatim>\<open>export-1\<close> with status \<^verbatim>\<open>finished\<close>. \<open>finished_file\<close>: the
  first file of the first such task of \<^verbatim>\<open>data.tasks\<close> (\<^verbatim>\<open>undefined\<close> when there is none), and
  \<open>shows_file\<close>: the answer has such a file. \<open>readable_tasks\<close>: the task list is missing, or
  it is a list with no \<^verbatim>\<open>null\<close> before its first finished export task. \<open>shows_nothing\<close>: the
  fetch returned, the task list is readable, the status is not \<^verbatim>\<open>"error"\<close> and there is no
  such file.
\<close>

definition shows_error :: "js_error + jsval \<Rightarrow> bool" where
  "shows_error r =
     (case r of
        Inl e \<Rightarrow> False
      | Inr jdata \<Rightarrow> js_opt_get (js_opt_get jdata ''data'') ''status'' = JStr ''error'')"

definition finished_export :: "jsval \<Rightarrow> bool" where
  "finished_export t =
     (js_opt_get t ''name'' = JStr ''export-1'' \<and> js_opt_get t ''status'' = JStr ''finished'')"

definition finished_file :: "jsval \<Rightarrow> jsval" where
  "finished_file jdata =
     (case js_opt_get (js_opt_get jdata ''data'') ''tasks'' of
        JArr tasks \<Rightarrow>
          (case List.find finished_export tasks of
             None \<Rightarrow> JUndefined
           | Some t \<Rightarrow> js_opt_index0 (js_opt_get (js_opt_get t ''result'') ''files''))
      | v \<Rightarrow> JUndefined)"

definition shows_file :: "js_error + jsval \<Rightarrow> bool" where
  "shows_file r = (case r of Inl e \<Rightarrow> False | Inr jdata \<Rightarrow> truthy (finished_file jdata))"

definition is_object_like :: "jsval \<Rightarrow> bool" where
  "is_object_like t = (t \<noteq> JUndefined \<and> t \<noteq> JNull)"

definition readable_tasks :: "jsval \<Rightarrow> bool" where
  "readable_tasks jdata =
     (case js_opt_get (js_opt_get jdata ''data'') ''tasks'' of
        JArr tasks \<Rightarrow> list_all is_object_like (takeWhile (\<lambda>t. \<not> finished_export t) tasks)
      | JUndefined \<Rightarrow> True
      | JNull \<Rightarrow> True
      | v \<Rightarrow> False)"

definition shows_nothing :: "js_error + jsval \<Rightarrow> bool" where
  "shows_nothing r =
     (case r of
        Inl e \<Rightarrow> False
      | Inr jdata \<Rightarrow>
          readable_tasks jdata
          \<and> js_opt_get (js_opt_get jdata ''data'') ''status'' \<noteq> JStr ''error''
          \<and> \<not> truthy (finished_file jdata))"

text \<open>What the loop leaves behind when an attempt stops it, from the \<^verbatim>\<open>fileOut\<close> it had.\<close>

definition stop_result :: "jsval \<Rightarrow> js_error + jsval \<Rightarrow> js_error + jsval" where
  "stop_result fileOut r =
     (case r of
        Inl e \<Rightarrow> Inl e
      | Inr jdata \<Rightarrow>
          (case export_file jdata of
             Inl e \<Rightarrow> Inl e
           | Inr file0 \<Rightarrow> Inr (if truthy file0 then file0 else fileOut)))"

text \<open>The effects of \<open>n\<close> polling attempts: each sleeps 1500 ms and then fetches the job.\<close>

definition rounds :: "string \<Rightarrow> jsval \<Rightarrow> nat \<Rightarrow> effect list" where
  "rounds apiKey jobId n = concat (replicate n [Sleep 1500, GetJob apiKey jobId])"

text \<open>
  A success answer built from the output file \<open>f\<close>: status 200 and the four members
  taken from the file's \<^verbatim>\<open>url\<close>, \<^verbatim>\<open>filename\<close>, \<^verbatim>\<open>size\<close> and \<^verbatim>\<open>content_type\<close>.
\<close>

definition is_success_of :: "jsval \<Rightarrow> response \<Rightarrow> bool" where
  "is_success_of f r =
     (statusCode r = 200
      \<and> js_opt_get (json r) ''downloadUrl'' = js_opt_get f ''url''
      \<and> js_opt_get (json r) ''filename'' = js_opt_get f ''filename''
      \<and> js_opt_get (json r) ''sizeBytes'' = js_opt_get f ''size''
      \<and> js_opt_get (json r) ''contentType'' = js_opt_get f ''content_type'')"


text \<open>
  Two characters that differ at most in letter case, and two strings that do so position by
  position.
\<close>

definition upper_char :: "char \<Rightarrow> char" where
  "upper_char c =
     (if 97 \<le> (of_char c :: nat) \<and> (of_char c :: nat) \<le> 122
      then char_of ((of_char c :: nat) - 32) else c)"

definition same_letter :: "char \<Rightarrow> char \<Rightarrow> bool" where
  "same_letter a b = (a = b \<or> a = upper_char b \<or> upper_char a = b)"

definition same_ignoring_case :: "string \<Rightarrow> string \<Rightarrow> bool" where
  "same_ignoring_case s t = list_all2 same_letter s t"

text \<open>
  The ways an upload request can fail validation: no file; a banned content type; an empty
  or missing target; a content type that is not a key of the table; a target outside the
  content type's list.
\<close>

definition fails_validation :: "upload_request \<Rightarrow> bool" where
  "fails_validation req =
     (case file_field req of
        None \<Rightarrow> True
      | Some file \<Rightarrow>
          mimetype file \<in> set banned
          \<or> \<not> truthy (js_opt_get (req_body req) ''target'')
          \<or> map_of CONVERSION_MAP (mimetype file) = None
          \<or> (case js_opt_get (req_body req) ''target'' of
                JStr t \<Rightarrow>
                  (case map_of CONVERSION_MAP (mimetype file) of
                     None \<Rightarrow> True
                   | Some allowed \<Rightarrow> toLowerCase t \<notin> set allowed)
              | v \<Rightarrow> False))"

text \<open>
  A request whose file part, if any, the upload middleware accepts and whose declared content
  type is not the name of an inherited property; and a request whose \<^verbatim>\<open>target\<close> field is a
  single text value or missing.
\<close>

definition plain_upload :: "process_env \<Rightarrow> upload_request \<Rightarrow> bool" where
  "plain_upload env req =
     (case file_field req of
        None \<Rightarrow> True
      | Some file \<Rightarrow>
          mimetype file \<notin> set banned
          \<and> length (buffer file) \<le> MAX_FILE_SIZE_MB env * 1024 * 1024
          \<and> mimetype file \<notin> set Object_prototype_names)"

definition text_target :: "upload_request \<Rightarrow> bool" where
  "text_target req =
     (case js_opt_get (req_body req) ''target'' of
        JStr t \<Rightarrow> True
      | v \<Rightarrow> \<not> truthy v)"

section \<open>Sample requests and answers\<close>

text \<open>The output file of the specification's end-to-end scenario A.\<close>

definition ex_file :: jsval where
  "ex_file =
     JObj [(''url'', JStr ''https://x/out.docx''), (''filename'', JStr ''out.docx''),
           (''size'', JNum 1024), (''content_type'', JStr ''application/vnd...document'')]"

definition ex_export_task :: jsval where
  "ex_export_task =
     JObj [(''name'', JStr ''export-1''), (''status'', JStr ''finished''),
           (''result'', JObj [(''files'', JArr [ex_file])])]"

definition ex_done_tasks :: "jsval list" where
  "ex_done_tasks =
     [JObj [(''name'', JStr ''import-1''), (''status'', JStr ''finished'')],
      JObj [(''name'', JStr ''convert-1''), (''status'', JStr ''finished'')],
      ex_export_task]"

text \<open>Status answers: a job still running, finished, failed, and failed with an output file.\<close>

definition ex_pending :: jsval where
  "ex_pending =
     JObj [(''data'', JObj [(''id'', JStr ''j1''), (''status'', JStr ''processing''),
       (''tasks'', JArr [JObj [(''name'', JStr ''export-1''), (''status'', JStr ''waiting'')]])])]"

definition ex_finished :: jsval where
  "ex_finished =
     JObj [(''data'', JObj [(''id'', JStr ''j1''), (''status'', JStr ''finished''),
       (''tasks'', JArr ex_done_tasks)])]"

definition ex_failed :: jsval where
  "ex_failed =
     JObj [(''data'', JObj [(''id'', JStr ''j1''), (''status'', JStr ''error''),
       (''tasks'', JArr [JObj [(''name'', JStr ''export-1''), (''status'', JStr ''error'')]])])]"

definition ex_failed_with_file :: jsval where
  "ex_failed_with_file =
     JObj [(''data'', JObj [(''id'', JStr ''j1''), (''status'', JStr ''error''),
       (''tasks'', JArr ex_done_tasks)])]"

text \<open>A service that answers \<open>n\<close> fetches with the running job and every later one with \<open>final\<close>.\<close>

definition ex_get :: "nat \<Rightarrow> jsval \<Rightarrow> nat \<Rightarrow> js_error + jsval" where
  "ex_get n final i = (if i < n then Inr ex_pending else Inr final)"

definition ex_url_service :: "(nat \<Rightarrow> js_error + jsval) \<Rightarrow> url_service" where
  "ex_url_service get = \<lparr>axios_post = Inr ex_pending, axios_get = get\<rparr>"

definition ex_env :: process_env where
  "ex_env = \<lparr>CLOUDCONVERT_API_KEY = Some ''key'', MAX_FILE_SIZE_MB_var = None\<rparr>"

definition ex_env_no_key :: process_env where
  "ex_env_no_key = \<lparr>CLOUDCONVERT_API_KEY = None, MAX_FILE_SIZE_MB_var = None\<rparr>"

definition ex_env_tiny_limit :: process_env where
  "ex_env_tiny_limit = \<lparr>CLOUDCONVERT_API_KEY = Some ''key'', MAX_FILE_SIZE_MB_var = Some 0\<rparr>"

definition ex_parsed :: jsval where
  "ex_parsed = JObj [(''fileUrl'', JStr ''https://x/in.pdf''), (''target'', JStr ''docx'')]"

definition ex_event :: event where
  "ex_event = \<lparr>httpMethod = ''POST'', body = Json ex_parsed\<rparr>"

text \<open>An upload of a PNG image to be converted to PDF, and the service's answers to it.\<close>

definition ex_upload :: "string \<Rightarrow> file_part" where
  "ex_upload mime = \<lparr>originalname = ''scan.png'', mimetype = mime, buffer = ''PNGDATA''\<rparr>"

definition ex_request :: "string \<Rightarrow> jsval \<Rightarrow> upload_request" where
  "ex_request mime target =
     \<lparr>file_field = Some (ex_upload mime), req_body = JObj [(''target'', target)]\<rparr>"

definition ex_form :: jsval where
  "ex_form =
     JObj [(''url'', JStr ''https://storage/upload''),
           (''parameters'', JObj [(''signature'', JStr ''abc'')])]"

definition ex_job_tasks :: "jsval \<Rightarrow> jsval list" where
  "ex_job_tasks import_task =
     [import_task,
      JObj [(''name'', JStr ''convert-1''), (''status'', JStr ''waiting'')],
      JObj [(''name'', JStr ''export-1''), (''status'', JStr ''waiting'')]]"

definition ex_import_task :: jsval where
  "ex_import_task =
     JObj [(''name'', JStr ''import-1''), (''status'', JStr ''waiting''),
           (''result'', JObj [(''form'', ex_form)])]"

definition ex_import_no_result :: jsval where
  "ex_import_no_result = JObj [(''name'', JStr ''import-1''), (''status'', JStr ''waiting'')]"

definition ex_import_no_form :: jsval where
  "ex_import_no_form =
     JObj [(''name'', JStr ''import-1''), (''status'', JStr ''waiting''), (''result'', JObj [])]"

definition ex_job :: "jsval \<Rightarrow> jsval" where
  "ex_job import_task =
     JObj [(''id'', JStr ''j1''), (''status'', JStr ''waiting''),
           (''tasks'', JArr (ex_job_tasks import_task))]"


definition ex_completed :: "jsval list \<Rightarrow> jsval" where
  "ex_completed tasks =
     JObj [(''id'', JStr ''j1''), (''status'', JStr ''finished''), (''tasks'', JArr tasks)]"

definition ex_upload_service :: "jsval \<Rightarrow> jsval \<Rightarrow> upload_service" where
  "ex_upload_service job completed =
     \<lparr>jobs_create = Inr job, upload_post = None, jobs_wait = Inr completed\<rparr>"

text \<open>A service that refuses the job creation as unauthorised.\<close>

definition ex_unauthorized :: upload_service where
  "ex_unauthorized =
     \<lparr>jobs_create =
        Inl (AxiosError ''Request failed with status code 401''
               (Some (401, JObj [(''message'', JStr ''Unauthenticated.'')]))),
      upload_post = None,
      jobs_wait = Inr (ex_completed ex_done_tasks)\<rparr>"

definition ex_service :: upload_service where
  "ex_service = ex_upload_service (ex_job ex_import_task) (ex_completed ex_done_tasks)"

section \<open>Proofs\<close>

subsection \<open>JavaScript values\<close>

lemma js_get_truthy: "truthy (js_opt_get v k) \<Longrightarrow> js_get v k = Inr (js_opt_get v k)"
  by (cases v) simp_all

lemma js_get_of_truthy: "truthy v \<Longrightarrow> js_get v k = Inr (js_opt_get v k)"
  by (cases v) simp_all

lemma truthy_get_obj: "truthy (js_opt_get v k) \<Longrightarrow> truthy v"
  by (cases v) simp_all

lemma result_fields_truthy:
  "truthy f \<Longrightarrow> result_fields f =
     Inr [(''downloadUrl'', js_opt_get f ''url''), (''filename'', js_opt_get f ''filename''),
          (''sizeBytes'', js_opt_get f ''size''), (''contentType'', js_opt_get f ''content_type'')]"
  by (simp add: result_fields_def js_get_of_truthy)

subsection \<open>Letter case\<close>

lemma of_char_shift_up:
  fixes n :: nat
  assumes "n \<le> 90"
  shows "(of_char (char_of (n + 32)) :: nat) = n + 32"
proof -
  have "(n + 32) mod 256 = n + 32" using assms by (intro mod_less) linarith
  then show ?thesis by (simp add: of_char_of)
qed

lemma of_char_shift_down:
  fixes n :: nat
  assumes "n \<le> 122"
  shows "(of_char (char_of (n - 32)) :: nat) = n - 32"
proof -
  have "(n - 32) mod 256 = n - 32" using assms by (intro mod_less) linarith
  then show ?thesis by (simp add: of_char_of)
qed

lemma lower_char_fixed:
  assumes "lower_char b = b"
  shows "\<not> (65 \<le> (of_char b :: nat) \<and> (of_char b :: nat) \<le> 90)"
proof
  define n :: nat where "n = of_char b"
  assume "65 \<le> (of_char b :: nat) \<and> (of_char b :: nat) \<le> 90"
  then have u: "65 \<le> n" "n \<le> 90" by (simp_all add: n_def)
  then have "lower_char b = char_of (n + 32)" by (simp add: lower_char_def n_def)
  then have "(of_char b :: nat) = of_char (char_of (n + 32))" using assms by simp
  then have "n = n + 32" using of_char_shift_up[OF u(2)] by (simp add: n_def)
  then show False by simp
qed

lemma lower_upper:
  assumes "lower_char b = b"
  shows "lower_char (upper_char b) = b"
proof (cases "97 \<le> (of_char b :: nat) \<and> (of_char b :: nat) \<le> 122")
  case True
  define n :: nat where "n = of_char b"
  have u: "97 \<le> n" "n \<le> 122" using True by (simp_all add: n_def)
  have "(of_char (upper_char b) :: nat) = n - 32"
    using True of_char_shift_down[OF u(2)] by (simp add: upper_char_def n_def)
  moreover have "65 \<le> n - 32" "n - 32 \<le> 90" "n - 32 + 32 = n" using u by simp_all
  ultimately have "lower_char (upper_char b) = char_of n"
    by (simp add: lower_char_def)
  then show ?thesis by (simp add: n_def)
next
  case False
  then show ?thesis using assms by (auto simp: upper_char_def)
qed

lemma upper_fixed:
  assumes "lower_char (upper_char a) = upper_char a"
  shows "upper_char a = a"
proof (cases "97 \<le> (of_char a :: nat) \<and> (of_char a :: nat) \<le> 122")
  case True
  define n :: nat where "n = of_char a"
  have u: "97 \<le> n" "n \<le> 122" using True by (simp_all add: n_def)
  have "(of_char (upper_char a) :: nat) = n - 32"
    using True of_char_shift_down[OF u(2)] by (simp add: upper_char_def n_def)
  moreover have "65 \<le> n - 32" "n - 32 \<le> 90" using u by simp_all
  ultimately have "65 \<le> (of_char (upper_char a) :: nat) \<and> (of_char (upper_char a) :: nat) \<le> 90"
    by simp
  then show ?thesis using lower_char_fixed[OF assms] by simp
next
  case False
  then show ?thesis by (auto simp: upper_char_def)
qed

lemma lower_char_idem: "lower_char (lower_char c) = lower_char c"
proof (cases "65 \<le> (of_char c :: nat) \<and> (of_char c :: nat) \<le> 90")
  case True
  define n :: nat where "n = of_char c"
  have u: "65 \<le> n" "n \<le> 90" using True by (simp_all add: n_def)
  have l: "lower_char c = char_of (n + 32)" using True by (simp add: lower_char_def n_def)
  have "(of_char (lower_char c) :: nat) = n + 32"
    unfolding l using of_char_shift_up[OF u(2)] by simp
  then have "\<not> (65 \<le> (of_char (lower_char c) :: nat) \<and> (of_char (lower_char c) :: nat) \<le> 90)"
    using u by simp
  then show ?thesis by (subst lower_char_def) auto
next
  case False
  then show ?thesis by (auto simp: lower_char_def)
qed

lemma toLowerCase_idem: "toLowerCase (toLowerCase s) = toLowerCase s"
  by (simp add: toLowerCase_def lower_char_idem)

lemma toLowerCase_Nil_iff: "toLowerCase s = [] \<longleftrightarrow> s = []"
  by (simp add: toLowerCase_def)

lemma lower_of_same_letter:
  assumes "same_letter a b" and "lower_char b = b"
  shows "lower_char a = b"
proof -
  consider "a = b" | "a = upper_char b" | "upper_char a = b"
    using assms(1) by (auto simp: same_letter_def)
  then show ?thesis
  proof cases
    case 1
    then show ?thesis using assms(2) by simp
  next
    case 2
    then show ?thesis using lower_upper[OF assms(2)] by simp
  next
    case 3
    then have "upper_char a = a" using assms(2) upper_fixed[of a] by simp
    then show ?thesis using 3 assms(2) by simp
  qed
qed

lemma lower_of_same_ignoring_case:
  assumes "same_ignoring_case s t" and "toLowerCase t = t"
  shows "toLowerCase s = t"
  using assms unfolding same_ignoring_case_def toLowerCase_def
proof (induction s t rule: list_all2_induct)
  case Nil
  then show ?case by simp
next
  case (Cons a s b t)
  then show ?case by (simp add: lower_of_same_letter)
qed

subsection \<open>The table of conversions\<close>

lemma table_targets:
  assumes "map_of CONVERSION_MAP mime = Some allowed" and "x \<in> set allowed"
  shows "x \<noteq> [] \<and> toLowerCase x = x"
proof -
  have "(mime, allowed) \<in> set CONVERSION_MAP" using assms(1) by (rule map_of_SomeD)
  then show ?thesis using assms(2)
    by (auto simp: CONVERSION_MAP_def toLowerCase_def lower_char_def)
qed

lemma get_Targets: "map_of CONVERSION_MAP mime = Some allowed \<Longrightarrow> CONVERSION_MAP_get mime = Targets allowed"
  by (simp add: CONVERSION_MAP_get_def)

lemma get_of_None:
  "map_of CONVERSION_MAP mime = None \<Longrightarrow>
     CONVERSION_MAP_get mime = (if mime \<in> set Object_prototype_names then Inherited else Absent)"
  by (simp add: CONVERSION_MAP_get_def)

lemma absent_is_rejected:
  assumes "map_of CONVERSION_MAP mime = None" and "mime \<notin> set Object_prototype_names"
  shows "isTargetAllowed mime target = Inr False"
  using assms by (simp add: isTargetAllowed_def CONVERSION_MAP_get_def)

subsection \<open>The polling loop\<close>

lemma rounds_Suc: "rounds k j (Suc n) = Sleep 1500 # GetJob k j # rounds k j n"
  by (simp add: rounds_def)

lemma rounds_0: "rounds k j 0 = []"
  by (simp add: rounds_def)

lemma fetches_rounds: "fetches (rounds k j n) = n"
  by (induction n) (simp_all add: rounds_Suc rounds_0 fetches_def)

lemma poll_done: "poll get k j i True fo = (Inr fo, [])"
  by (simp add: poll.simps)

lemma poll_quiet_step:
  assumes "quiet (get i)" and "i < 40"
  shows "poll get k j i False fo = apsnd (\<lambda>tr. Sleep 1500 # GetJob k j # tr) (poll get k j (Suc i) False fo)"
  using assms by (subst poll.simps) (auto simp: quiet_def split: sum.splits)

lemma poll_stop_step:
  assumes "\<not> quiet (get i)" and "i < 40"
  shows "poll get k j i False fo = (stop_result fo (get i), [Sleep 1500, GetJob k j])"
  using assms
  by (subst poll.simps) (auto simp: quiet_def stop_result_def poll_done split: sum.splits)

lemma poll_stop_at:
  assumes "\<forall>q<m. quiet (get (i + q))" and "i + m < 40" and "\<not> quiet (get (i + m))"
  shows "poll get k j i False fo = (stop_result fo (get (i + m)), rounds k j (Suc m))"
  using assms
proof (induction m arbitrary: i)
  case 0
  then show ?case by (simp add: poll_stop_step rounds_Suc rounds_0)
next
  case (Suc m)
  have q: "quiet (get i)" using Suc.prems(1) by (metis add.right_neutral zero_less_Suc)
  have "\<forall>q<m. quiet (get (Suc i + q))"
    using Suc.prems(1) by (metis Suc_less_eq add_Suc_shift)
  then have "poll get k j (Suc i) False fo = (stop_result fo (get (Suc i + m)), rounds k j (Suc m))"
    using Suc.IH[of "Suc i"] Suc.prems by simp
  then show ?case using q Suc.prems(2) by (simp add: poll_quiet_step rounds_Suc)
qed

lemma poll_exhaust:
  assumes "\<forall>q. i + q < 40 \<longrightarrow> quiet (get (i + q))" and "i + m = 40"
  shows "poll get k j i False fo = (Inr fo, rounds k j m)"
  using assms
proof (induction m arbitrary: i)
  case 0
  then show ?case by (simp add: poll.simps rounds_0)
next
  case (Suc m)
  have q: "quiet (get i)" using Suc.prems by (metis add.right_neutral add_Suc_right less_add_Suc1)
  have "\<forall>q. Suc i + q < 40 \<longrightarrow> quiet (get (Suc i + q))"
    using Suc.prems(1) by (metis add_Suc_shift)
  then have "poll get k j (Suc i) False fo = (Inr fo, rounds k j m)"
    using Suc.IH[of "Suc i"] Suc.prems by simp
  then show ?case using q Suc.prems(2) by (simp add: poll_quiet_step rounds_Suc)
qed

lemma poll_first_stop:
  assumes "\<forall>q<m. quiet (get q)" and "m < 40" and "\<not> quiet (get m)"
  shows "poll get k j 0 False fo = (stop_result fo (get m), rounds k j (Suc m))"
  using poll_stop_at[of m get 0 k j fo] assms by simp

lemma poll_all_quiet:
  assumes "\<forall>q<40. quiet (get q)"
  shows "poll get k j 0 False fo = (Inr fo, rounds k j 40)"
  using poll_exhaust[of 0 get 40 k j fo] assms by simp

lemma poll_cases:
  fixes get :: "nat \<Rightarrow> js_error + jsval"
  shows "(\<exists>m<40. (\<forall>q<m. quiet (get q)) \<and> \<not> quiet (get m)) \<or> (\<forall>q<40. quiet (get q))"
proof (cases "\<forall>q<40. quiet (get q)")
  case True
  then show ?thesis by simp
next
  case False
  then have ex: "\<exists>m. m < 40 \<and> \<not> quiet (get m)" by blast
  define m where "m = (LEAST m. m < 40 \<and> \<not> quiet (get m))"
  have a: "m < 40 \<and> \<not> quiet (get m)" unfolding m_def using ex by (rule LeastI_ex)
  have "\<forall>q<m. quiet (get q)"
  proof (intro allI impI)
    fix q assume "q < m"
    then have "\<not> (q < 40 \<and> \<not> quiet (get q))" unfolding m_def by (rule not_less_Least)
    moreover have "q < 40" using \<open>q < m\<close> a by simp
    ultimately show "quiet (get q)" by simp
  qed
  then show ?thesis using a by blast
qed

lemma is_finished_export_object:
  assumes "is_object_like t"
  shows "is_finished_export t = Inr (finished_export t)"
  using assms
  by (cases t) (simp_all add: is_object_like_def is_finished_export_def finished_export_def)

lemma is_finished_export_null:
  assumes "\<not> is_object_like t"
  shows "\<exists>e. is_finished_export t = Inl e"
  using assms
  by (cases t) (simp_all add: is_object_like_def is_finished_export_def)

lemma not_finished_export_null:
  assumes "\<not> is_object_like t"
  shows "\<not> finished_export t"
  using assms by (cases t) (simp_all add: is_object_like_def finished_export_def)

lemma array_find_readable:
  assumes "list_all is_object_like (takeWhile (\<lambda>t. \<not> finished_export t) tasks)"
  shows "array_find is_finished_export tasks =
           Inr (case List.find finished_export tasks of None \<Rightarrow> JUndefined | Some t \<Rightarrow> t)"
  using assms
proof (induction tasks)
  case Nil
  then show ?case by simp
next
  case (Cons t tasks)
  show ?case
  proof (cases "finished_export t")
    case True
    then have "is_object_like t" using not_finished_export_null by blast
    then show ?thesis using True by (simp add: is_finished_export_object)
  next
    case False
    then have "is_object_like t" using Cons.prems by simp
    then show ?thesis using False Cons by (simp add: is_finished_export_object)
  qed
qed

lemma array_find_unreadable:
  assumes "\<not> list_all is_object_like (takeWhile (\<lambda>t. \<not> finished_export t) tasks)"
  shows "\<exists>e. array_find is_finished_export tasks = Inl e"
  using assms
proof (induction tasks)
  case Nil
  then show ?case by simp
next
  case (Cons t tasks)
  show ?case
  proof (cases "is_object_like t")
    case False
    then obtain e where "is_finished_export t = Inl e" using is_finished_export_null by blast
    then show ?thesis by simp
  next
    case True
    then have f: "\<not> finished_export t" using Cons.prems by auto
    then have "\<not> list_all is_object_like (takeWhile (\<lambda>t. \<not> finished_export t) tasks)"
      using Cons.prems True by simp
    then show ?thesis using Cons.IH True f by (simp add: is_finished_export_object)
  qed
qed

lemma export_file_readable:
  assumes "readable_tasks jdata"
  shows "export_file jdata = Inr (finished_file jdata)"
proof (cases "js_opt_get (js_opt_get jdata ''data'') ''tasks''")
  case (JArr tasks)
  then have "list_all is_object_like (takeWhile (\<lambda>t. \<not> finished_export t) tasks)"
    using assms by (simp add: readable_tasks_def)
  then show ?thesis using JArr
    by (simp add: export_file_def finished_file_def array_find_readable split: option.splits)
qed (use assms in \<open>simp_all add: readable_tasks_def export_file_def finished_file_def\<close>)

lemma export_file_unreadable:
  assumes "\<not> readable_tasks jdata"
  shows "\<exists>e. export_file jdata = Inl e"
proof (cases "js_opt_get (js_opt_get jdata ''data'') ''tasks''")
  case (JArr tasks)
  then have "\<not> list_all is_object_like (takeWhile (\<lambda>t. \<not> finished_export t) tasks)"
    using assms by (simp add: readable_tasks_def)
  then obtain e where "array_find is_finished_export tasks = Inl e"
    using array_find_unreadable by blast
  then show ?thesis using JArr by (simp add: export_file_def)
qed (use assms in \<open>simp_all add: readable_tasks_def export_file_def\<close>)

lemma shows_nothing_quiet: "shows_nothing r = quiet r"
proof (cases r)
  case (Inl e)
  then show ?thesis by (simp add: shows_nothing_def quiet_def)
next
  case (Inr jdata)
  show ?thesis
  proof (cases "readable_tasks jdata")
    case True
    then show ?thesis using Inr export_file_readable[OF True]
      by (auto simp: shows_nothing_def quiet_def job_failed_def)
  next
    case False
    then obtain e where "export_file jdata = Inl e" using export_file_unreadable by blast
    then show ?thesis using Inr False by (simp add: shows_nothing_def quiet_def)
  qed
qed

lemma shows_error_not_quiet: "shows_error r \<Longrightarrow> \<not> quiet r"
  by (auto simp: shows_error_def quiet_def job_failed_def split: sum.splits)

lemma shows_file_not_quiet:
  assumes "shows_file r"
  shows "\<not> quiet r"
proof (cases r)
  case (Inl e)
  then show ?thesis by (simp add: quiet_def)
next
  case (Inr jdata)
  show ?thesis
  proof (cases "readable_tasks jdata")
    case True
    then show ?thesis using Inr assms export_file_readable[OF True]
      by (simp add: shows_file_def quiet_def)
  next
    case False
    then obtain e where "export_file jdata = Inl e" using export_file_unreadable by blast
    then show ?thesis using Inr by (simp add: quiet_def)
  qed
qed

lemma export_file_found:
  assumes "js_opt_get (js_opt_get jdata ''data'') ''tasks'' = JArr tasks"
    and "array_find is_finished_export tasks = Inr t"
    and "js_opt_get (js_opt_get t ''result'') ''files'' = JArr (f # fs)"
  shows "export_file jdata = Inr f"
  using assms by (simp add: export_file_def)

subsection \<open>The remote-URL handler\<close>

lemma handler_reaches_poll:
  assumes "httpMethod ev = ''POST''" and "body ev = Json parsed"
    and "truthy (js_opt_get parsed ''fileUrl'')" and "truthy (js_opt_get parsed ''target'')"
    and "CLOUDCONVERT_API_KEY env = Some apiKey" and "apiKey \<noteq> []"
    and "axios_post svc = Inr jobRes_data"
    and "truthy (js_opt_get (js_opt_get jobRes_data ''data'') ''id'')"
    and "poll (axios_get svc) apiKey (js_opt_get (js_opt_get jobRes_data ''data'') ''id'') 0 False JNull
           = (Inr fileOut, tr)"
  shows "handler env svc ev =
           (if \<not> truthy fileOut
            then \<lparr>statusCode = 500,
                   json = JObj [(''error'', JStr ''Conversion not finished or failed'')]\<rparr>
            else \<lparr>statusCode = 200,
                   json = JObj [(''downloadUrl'', js_opt_get fileOut ''url''),
                                (''filename'', js_opt_get fileOut ''filename''),
                                (''sizeBytes'', js_opt_get fileOut ''size''),
                                (''contentType'', js_opt_get fileOut ''content_type'')]\<rparr>,
            PostJobs apiKey (js_opt_get parsed ''fileUrl'') (js_opt_get parsed ''target'') # tr)"
  using assms
  by (simp add: handler_def handler_try_def js_get_truthy result_fields_truthy)

lemma handler_success:
  assumes "httpMethod ev = ''POST''" and "body ev = Json parsed"
    and "truthy (js_opt_get parsed ''fileUrl'')" and "truthy (js_opt_get parsed ''target'')"
    and "CLOUDCONVERT_API_KEY env = Some apiKey" and "apiKey \<noteq> []"
    and "axios_post svc = Inr jobRes_data"
    and "truthy (js_opt_get (js_opt_get jobRes_data ''data'') ''id'')"
    and "m < 40" and "\<forall>q<m. quiet (axios_get svc q)"
    and "axios_get svc m = Inr jdata"
    and "js_opt_get (js_opt_get jdata ''data'') ''tasks'' = JArr tasks"
    and "array_find is_finished_export tasks = Inr t"
    and "js_opt_get (js_opt_get t ''result'') ''files'' = JArr (f # fs)"
    and "truthy f"
  shows "handler env svc ev =
           (\<lparr>statusCode = 200,
             json = JObj [(''downloadUrl'', js_opt_get f ''url''),
                          (''filename'', js_opt_get f ''filename''),
                          (''sizeBytes'', js_opt_get f ''size''),
                          (''contentType'', js_opt_get f ''content_type'')]\<rparr>,
            PostJobs apiKey (js_opt_get parsed ''fileUrl'') (js_opt_get parsed ''target'')
              # rounds apiKey (js_opt_get (js_opt_get jobRes_data ''data'') ''id'') (Suc m))"
proof -
  let ?id = "js_opt_get (js_opt_get jobRes_data ''data'') ''id''"
  have ef: "export_file jdata = Inr f" using assms(12-14) by (rule export_file_found)
  have nq: "\<not> quiet (axios_get svc m)"
    using assms(11,15) ef by (simp add: quiet_def)
  have "stop_result JNull (axios_get svc m) = Inr f"
    using assms(11,15) ef by (simp add: stop_result_def)
  then have "poll (axios_get svc) apiKey ?id 0 False JNull = (Inr f, rounds apiKey ?id (Suc m))"
    using poll_first_stop[of m "axios_get svc" apiKey ?id JNull] assms(9,10) nq by simp
  then show ?thesis
    using handler_reaches_poll[OF assms(1-8), of f "rounds apiKey ?id (Suc m)"] assms(15)
    by simp
qed

subsection \<open>The upload route\<close>

lemma upload_single_accepts:
  assumes "file_field req = Some file" and "mimetype file \<notin> set banned"
    and "length (buffer file) \<le> MAX_FILE_SIZE_MB env * 1024 * 1024"
  shows "upload_single env req = Inr (Some file)"
  using assms by (simp add: upload_single_def fileFilter_def)

lemma convert_try_reaches_create:
  assumes "js_opt_get text_fields ''target'' = JStr t"
    and "map_of CONVERSION_MAP (mimetype file) = Some allowed"
    and "toLowerCase t \<in> set allowed"
  shows "convert_try env svc (Some file) text_fields =
           (case jobs_create svc of
              Inl e \<Rightarrow> (Inl e, [JobsCreate (CLOUDCONVERT_API_KEY env) (toLowerCase t)])
            | Inr job \<Rightarrow>
                apsnd (\<lambda>tr. JobsCreate (CLOUDCONVERT_API_KEY env) (toLowerCase t) # tr)
                  (after_create svc file (toLowerCase t) job))"
proof -
  have ne: "toLowerCase t \<noteq> []" using table_targets[OF assms(2,3)] by simp
  then have t: "t \<noteq> []" by (auto simp: toLowerCase_def)
  have idem: "toLowerCase (toLowerCase t) = toLowerCase t"
    using table_targets[OF assms(2,3)] by simp
  show ?thesis
    using assms ne t idem
    by (simp add: convert_try_def js_or_def get_Targets isTargetAllowed_def)
qed

lemma after_create_reaches_wait:
  assumes "js_opt_get job ''tasks'' = JArr tasks"
    and "array_find (is_named ''import-1'') tasks = Inr importTask"
    and "truthy (js_opt_get importTask ''result'')"
    and "js_opt_get (js_opt_get importTask ''result'') ''form'' = form"
    and "form \<noteq> JUndefined" and "form \<noteq> JNull"
    and "upload_post svc = None"
    and "jobs_wait svc = Inr completedJob"
  shows "after_create svc file target job =
           (after_wait file target completedJob,
            [UploadPost (js_opt_get form ''url'') (js_or (js_opt_get form ''parameters'') (JObj [])) file,
             JobsWait (js_opt_get job ''id'')])"
proof -
  have j: "js_get job ''tasks'' = Inr (JArr tasks)" "js_get job ''id'' = Inr (js_opt_get job ''id'')"
    using assms(1) by (cases job; simp)+
  have i: "truthy importTask" using assms(3) by (rule truthy_get_obj)
  have r: "js_get importTask ''result'' = Inr (js_opt_get importTask ''result'')"
    using assms(3) by (rule js_get_truthy)
  have f: "js_get (js_opt_get importTask ''result'') ''form'' = Inr form"
    using assms(3,4) by (simp add: js_get_of_truthy)
  have u: "js_get form ''url'' = Inr (js_opt_get form ''url'')"
    "js_get form ''parameters'' = Inr (js_opt_get form ''parameters'')"
    using assms(5,6) by (cases form; simp)+
  show ?thesis
    using assms(2,3,7,8) j i r f u by (simp add: after_create_def)
qed


lemma after_wait_success:
  assumes "js_opt_get completedJob ''tasks'' = JArr ctasks"
    and "array_find is_finished_export ctasks = Inr t"
    and "js_opt_get (js_opt_get t ''result'') ''files'' = JArr (f # fs)"
    and "truthy f"
  shows "\<exists>meta. after_wait file target completedJob =
           Inr \<lparr>statusCode = 200,
                json = JObj [(''downloadUrl'', js_opt_get f ''url''),
                             (''filename'', js_opt_get f ''filename''),
                             (''sizeBytes'', js_opt_get f ''size''),
                             (''contentType'', js_opt_get f ''content_type''),
                             (''meta'', meta)]\<rparr>"
proof -
  have j: "js_get completedJob ''tasks'' = Inr (JArr ctasks)"
    using assms(1) by (cases completedJob; simp)
  have fl: "truthy (js_opt_get (js_opt_get t ''result'') ''files'')" using assms(3) by simp
  then have r: "truthy (js_opt_get t ''result'')" by (rule truthy_get_obj)
  then have t: "truthy t" by (rule truthy_get_obj)
  show ?thesis
    using assms j fl r t
    by (simp add: after_wait_def js_get_of_truthy result_fields_truthy)
qed


lemma api_convert_reaches_wait:
  assumes "file_field req = Some file" and "mimetype file \<notin> set banned"
    and "length (buffer file) \<le> MAX_FILE_SIZE_MB env * 1024 * 1024"
    and "js_opt_get (req_body req) ''target'' = JStr target"
    and "map_of CONVERSION_MAP (mimetype file) = Some allowed"
    and "toLowerCase target \<in> set allowed"
    and "jobs_create svc = Inr job"
    and "js_opt_get job ''tasks'' = JArr tasks"
    and "array_find (is_named ''import-1'') tasks = Inr importTask"
    and "truthy (js_opt_get importTask ''result'')"
    and "js_opt_get (js_opt_get importTask ''result'') ''form'' = form"
    and "form \<noteq> JUndefined" and "form \<noteq> JNull"
    and "upload_post svc = None"
    and "jobs_wait svc = Inr completedJob"
    and "after_wait file (toLowerCase target) completedJob = Inr r"
  shows "api_convert env svc req =
          (r, [JobsCreate (CLOUDCONVERT_API_KEY env) (toLowerCase target),
               UploadPost (js_opt_get form ''url'')
                 (js_or (js_opt_get form ''parameters'') (JObj [])) file,
               JobsWait (js_opt_get job ''id'')])"
  using assms(7,16)
  by (simp add: api_convert_def convert_route_def upload_single_accepts[OF assms(1-3)]
      convert_try_reaches_create[OF assms(4-6)] after_create_reaches_wait[OF assms(8-15)])

lemma route_no_file:
  \<open>convert_route env svc None text_fields =
     (badRequest ''No file uploaded. Use field name "file".'' JUndefined, [])\<close>
  by (simp add: convert_route_def convert_try_def)

lemma route_empty_target:
  assumes "\<not> truthy (js_opt_get text_fields ''target'')"
  shows "snd (convert_route env svc (Some upfile) text_fields) = []
         \<and> statusCode (fst (convert_route env svc (Some upfile) text_fields)) = 400"
  using assms
  by (simp add: convert_route_def convert_try_def js_or_def toLowerCase_def badRequest_def)

lemma route_bad_target_value:
  assumes "truthy v" and "\<forall>t. v \<noteq> JStr t" and "js_opt_get text_fields ''target'' = v"
  shows "snd (convert_route env svc (Some upfile) text_fields) = []
         \<and> statusCode (fst (convert_route env svc (Some upfile) text_fields)) = 500"
  using assms
  by (cases v) (simp_all add: convert_route_def convert_try_def js_or_def serverError_def)

lemma route_text_target:
  assumes "js_opt_get text_fields ''target'' = JStr t" and "t \<noteq> []"
  shows "convert_route env svc (Some upfile) text_fields =
     (case CONVERSION_MAP_get (mimetype upfile) of
        Absent \<Rightarrow>
          (badRequest ''This file type is not supported yet.''
             (JObj [(''receivedMime'', JStr (mimetype upfile)),
                    (''supportedMimes'', JArr (map (\<lambda>kv. JStr (fst kv)) CONVERSION_MAP))]), [])
      | Inherited \<Rightarrow> (convert_catch env (TypeError ''allowed.includes is not a function''), [])
      | Targets allowed \<Rightarrow>
          if toLowerCase t \<in> set allowed
          then (case jobs_create svc of
                  Inl e \<Rightarrow> (convert_catch env e, [JobsCreate (CLOUDCONVERT_API_KEY env) (toLowerCase t)])
                | Inr job \<Rightarrow>
                    (case after_create svc upfile (toLowerCase t) job of
                       (Inl e, tr) \<Rightarrow> (convert_catch env e, JobsCreate (CLOUDCONVERT_API_KEY env) (toLowerCase t) # tr)
                     | (Inr r, tr) \<Rightarrow> (r, JobsCreate (CLOUDCONVERT_API_KEY env) (toLowerCase t) # tr)))
          else (badRequest ''Target format not allowed for this file type.''
                  (JObj [(''sourceMime'', JStr (mimetype upfile)),
                         (''allowedTargets'', JArr (map JStr allowed))]), []))"
  using assms
  by (cases "CONVERSION_MAP_get (mimetype upfile)")
     (auto simp: convert_route_def convert_try_def js_or_def toLowerCase_Nil_iff
        isTargetAllowed_def toLowerCase_idem split: sum.splits prod.splits)

lemma route_rejects:
  assumes "\<not> truthy (js_opt_get text_fields ''target'')
           \<or> map_of CONVERSION_MAP (mimetype upfile) = None
           \<or> (\<exists>t allowed. js_opt_get text_fields ''target'' = JStr t
                 \<and> map_of CONVERSION_MAP (mimetype upfile) = Some allowed
                 \<and> toLowerCase t \<notin> set allowed)"
  shows "snd (convert_route env svc (Some upfile) text_fields) = []
         \<and> statusCode (fst (convert_route env svc (Some upfile) text_fields)) \<in> {400, 500}
         \<and> (mimetype upfile \<notin> set Object_prototype_names
              \<and> (\<not> truthy (js_opt_get text_fields ''target'')
                   \<or> (\<exists>t. js_opt_get text_fields ''target'' = JStr t))
            \<longrightarrow> statusCode (fst (convert_route env svc (Some upfile) text_fields)) = 400)"
proof (cases "truthy (js_opt_get text_fields ''target'')")
  case False
  then show ?thesis using route_empty_target[of text_fields env svc upfile] by simp
next
  case tr: True
  show ?thesis
  proof (cases "\<exists>t. js_opt_get text_fields ''target'' = JStr t")
    case False
    then show ?thesis
      using route_bad_target_value[OF tr, of text_fields env svc upfile] tr by simp
  next
    case True
    then obtain t where t: "js_opt_get text_fields ''target'' = JStr t" by blast
    then have ne: "t \<noteq> []" using tr by auto
    show ?thesis
    proof (cases "map_of CONVERSION_MAP (mimetype upfile)")
      case None
      then show ?thesis
        using route_text_target[OF t ne, of env svc upfile]
        by (simp add: get_of_None badRequest_def serverError_def)
    next
      case (Some allowed)
      then have "toLowerCase t \<notin> set allowed" using assms tr t by auto
      then show ?thesis
        using route_text_target[OF t ne, of env svc upfile] Some
        by (simp add: get_Targets badRequest_def)
    qed
  qed
qed

subsection \<open>The sample requests\<close>

lemma ex_pending_quiet: "quiet (Inr ex_pending)"
  by (simp add: quiet_def export_file_def job_failed_def ex_pending_def is_finished_export_def)

lemma ex_get_quiet: "\<forall>q<n. quiet (ex_get n final q)"
  by (simp add: ex_get_def ex_pending_quiet)

lemma ex_get_final: "ex_get n final n = Inr final"
  by (simp add: ex_get_def)

lemma ex_find_export: "array_find is_finished_export ex_done_tasks = Inr ex_export_task"
  by (simp add: ex_done_tasks_def ex_export_task_def is_finished_export_def)

lemma ex_export_files: "js_opt_get (js_opt_get ex_export_task ''result'') ''files'' = JArr (ex_file # [])"
  by (simp add: ex_export_task_def)

lemma ex_file_truthy: "truthy ex_file"
  by (simp add: ex_file_def)

lemma ex_finished_tasks: "js_opt_get (js_opt_get ex_finished ''data'') ''tasks'' = JArr ex_done_tasks"
  by (simp add: ex_finished_def)

lemma ex_failed_with_file_tasks:
  "js_opt_get (js_opt_get ex_failed_with_file ''data'') ''tasks'' = JArr ex_done_tasks"
  by (simp add: ex_failed_with_file_def)

lemma ex_finished_found: "found_file (Inr ex_finished)"
  using export_file_found[OF ex_finished_tasks ex_find_export ex_export_files]
  by (simp add: found_file_def ex_file_truthy)

lemma ex_shows:
  "shows_nothing (Inr ex_pending)"
  "shows_file (Inr ex_finished)"
  "shows_error (Inr ex_failed)"
  "js_opt_get (js_opt_get ex_failed ''data'') ''status'' = JStr ''error''"
  by (simp_all add: shows_nothing_def shows_file_def shows_error_def readable_tasks_def
      finished_file_def ex_pending_def ex_finished_def ex_failed_def ex_done_tasks_def
      ex_export_task_def ex_file_def finished_export_def is_object_like_def)

lemma ex_event_facts:
  "httpMethod ex_event = ''POST''" "body ex_event = Json ex_parsed"
  "truthy (js_opt_get ex_parsed ''fileUrl'')" "truthy (js_opt_get ex_parsed ''target'')"
  by (simp_all add: ex_event_def ex_parsed_def)

lemma ex_env_facts: "CLOUDCONVERT_API_KEY ex_env = Some ''key''" "''key'' \<noteq> []"
  by (simp_all add: ex_env_def)

lemma ex_service_facts:
  "axios_post (ex_url_service get) = Inr ex_pending"
  "truthy (js_opt_get (js_opt_get ex_pending ''data'') ''id'')"
  "axios_get (ex_url_service get) = get"
  by (simp_all add: ex_url_service_def ex_pending_def)

lemma ex_request_facts:
  "file_field (ex_request mime target) = Some (ex_upload mime)"
  "req_body (ex_request mime target) = JObj [(''target'', target)]"
  "js_opt_get (req_body (ex_request mime target)) ''target'' = target"
  "mimetype (ex_upload mime) = mime"
  "length (buffer (ex_upload mime)) = 7"
  "MAX_FILE_SIZE_MB ex_env = 25"
  "MAX_FILE_SIZE_MB ex_env_no_key = 25"
  by (simp_all add: ex_request_def ex_upload_def ex_env_def ex_env_no_key_def MAX_FILE_SIZE_MB_def)

lemma ex_png:
  "''image/png'' \<notin> set banned"
  "map_of CONVERSION_MAP ''image/png'' = Some [''jpg'', ''webp'', ''pdf'', ''png'']"
  by (simp_all add: banned_def CONVERSION_MAP_def)

lemma ex_lower: "toLowerCase ''PDF'' = ''pdf''"
  by code_simp

lemma ex_mp4: "toLowerCase ''mp4'' = ''mp4''"
  by code_simp

lemma ex_same: "same_ignoring_case ''PDF'' ''pdf''" "same_ignoring_case ''pdf'' ''pdf''"
  "same_ignoring_case ''pDf'' ''pdf''"
  by (simp_all add: same_ignoring_case_def same_letter_def) code_simp+

lemma ex_not_key: "map_of CONVERSION_MAP ''image/gif'' = None" "map_of CONVERSION_MAP ''constructor'' = None"
  "map_of CONVERSION_MAP ''application/x-sh'' = None"
  by (simp_all add: CONVERSION_MAP_def)

lemma ex_upload_service_facts:
  "jobs_create (ex_upload_service job completed) = Inr job"
  "upload_post (ex_upload_service job completed) = None"
  "jobs_wait (ex_upload_service job completed) = Inr completed"
  by (simp_all add: ex_upload_service_def)

lemma ex_job_facts:
  "js_opt_get (ex_job import_task) ''tasks'' = JArr (ex_job_tasks import_task)"
  "js_opt_get (ex_job import_task) ''id'' = JStr ''j1''"
  by (simp_all add: ex_job_def)

lemma ex_find_import:
  "array_find (is_named ''import-1'') (ex_job_tasks ex_import_task) = Inr ex_import_task"
  "array_find (is_named ''import-1'') (ex_job_tasks ex_import_no_result) = Inr ex_import_no_result"
  "array_find (is_named ''import-1'') (ex_job_tasks ex_import_no_form) = Inr ex_import_no_form"
  by (simp_all add: ex_job_tasks_def ex_import_task_def ex_import_no_result_def
      ex_import_no_form_def is_named_def)

lemma ex_import_facts:
  "truthy (js_opt_get ex_import_task ''result'')"
  "js_opt_get (js_opt_get ex_import_task ''result'') ''form'' = ex_form"
  "ex_form \<noteq> JUndefined" "ex_form \<noteq> JNull"
  by (simp_all add: ex_import_task_def ex_form_def)

lemma ex_completed_tasks: "js_opt_get (ex_completed tasks) ''tasks'' = JArr tasks"
  by (simp add: ex_completed_def)

lemma ex_accepted:
  "mimetype (ex_upload ''image/png'') \<notin> set banned"
  "length (buffer (ex_upload ''image/png'')) \<le> MAX_FILE_SIZE_MB ex_env * 1024 * 1024"
  "length (buffer (ex_upload ''image/png'')) \<le> MAX_FILE_SIZE_MB ex_env_no_key * 1024 * 1024"
  "map_of CONVERSION_MAP (mimetype (ex_upload ''image/png'')) = Some [''jpg'', ''webp'', ''pdf'', ''png'']"
  "toLowerCase ''PDF'' \<in> set [''jpg'', ''webp'', ''pdf'', ''png'']"
  by (simp_all add: ex_request_facts ex_png ex_lower)


lemma ex_fails:
  "fails_validation (ex_request ''image/png'' (JStr ''mp4''))"
  "fails_validation (ex_request ''application/x-sh'' (JStr ''pdf''))"
  "fails_validation (ex_request ''constructor'' (JStr ''pdf''))"
  "fails_validation (ex_request ''image/gif'' (JArr [JStr ''pdf'', JStr ''png'']))"
  "fails_validation (ex_request ''image/png'' (JStr []))"
  by (simp_all add: fails_validation_def ex_request_facts ex_not_key ex_png ex_mp4 banned_def)

subsection \<open>The outcome of a conversion\<close>

text \<open>
  Claim C1. When the job's life ends with a finished export task that carries an output file,
  both entry points answer with a success whose \<^verbatim>\<open>downloadUrl\<close>, \<^verbatim>\<open>filename\<close>, \<^verbatim>\<open>sizeBytes\<close> and
  \<^verbatim>\<open>contentType\<close> are the \<^verbatim>\<open>url\<close>, \<^verbatim>\<open>filename\<close>, \<^verbatim>\<open>size\<close> and \<^verbatim>\<open>content_type\<close> of the first file of
  that task's file list. First conjunct: the remote-URL handler, for a well-formed request
  with the credential set, a created job, and a status fetch within the 40 attempts that
  shows the finished export task after quiet ones. Second conjunct: the upload route, for an
  accepted upload, a created job with its upload form, a successful upload, and a waited-for
  job whose finished export task has the file.
\<close>

theorem success_returns_first_file:
  "(httpMethod ev = ''POST'' \<and> body ev = Json parsed
      \<and> truthy (js_opt_get parsed ''fileUrl'') \<and> truthy (js_opt_get parsed ''target'')
      \<and> CLOUDCONVERT_API_KEY env = Some apiKey \<and> apiKey \<noteq> []
      \<and> axios_post usvc = Inr jobRes_data
      \<and> truthy (js_opt_get (js_opt_get jobRes_data ''data'') ''id'')
      \<and> m < 40 \<and> (\<forall>q<m. quiet (axios_get usvc q))
      \<and> axios_get usvc m = Inr jdata
      \<and> js_opt_get (js_opt_get jdata ''data'') ''tasks'' = JArr tasks
      \<and> array_find is_finished_export tasks = Inr t
      \<and> js_opt_get (js_opt_get t ''result'') ''files'' = JArr (f # fs)
      \<and> truthy f
    \<longrightarrow> is_success_of f (fst (handler env usvc ev)))
   \<and> (file_field req = Some upfile \<and> mimetype upfile \<notin> set banned
      \<and> length (buffer upfile) \<le> MAX_FILE_SIZE_MB uenv * 1024 * 1024
      \<and> js_opt_get (req_body req) ''target'' = JStr target
      \<and> map_of CONVERSION_MAP (mimetype upfile) = Some allowed
      \<and> toLowerCase target \<in> set allowed
      \<and> jobs_create svc = Inr job
      \<and> js_opt_get job ''tasks'' = JArr jtasks
      \<and> array_find (is_named ''import-1'') jtasks = Inr importTask
      \<and> truthy (js_opt_get importTask ''result'')
      \<and> js_opt_get (js_opt_get importTask ''result'') ''form'' = form
      \<and> form \<noteq> JUndefined \<and> form \<noteq> JNull
      \<and> upload_post svc = None
      \<and> jobs_wait svc = Inr completedJob
      \<and> js_opt_get completedJob ''tasks'' = JArr ctasks
      \<and> array_find is_finished_export ctasks = Inr et
      \<and> js_opt_get (js_opt_get et ''result'') ''files'' = JArr (uf # ufs)
      \<and> truthy uf
    \<longrightarrow> is_success_of uf (fst (api_convert uenv svc req)))"
proof (intro conjI impI)
  assume h: "httpMethod ev = ''POST'' \<and> body ev = Json parsed
      \<and> truthy (js_opt_get parsed ''fileUrl'') \<and> truthy (js_opt_get parsed ''target'')
      \<and> CLOUDCONVERT_API_KEY env = Some apiKey \<and> apiKey \<noteq> []
      \<and> axios_post usvc = Inr jobRes_data
      \<and> truthy (js_opt_get (js_opt_get jobRes_data ''data'') ''id'')
      \<and> m < 40 \<and> (\<forall>q<m. quiet (axios_get usvc q))
      \<and> axios_get usvc m = Inr jdata
      \<and> js_opt_get (js_opt_get jdata ''data'') ''tasks'' = JArr tasks
      \<and> array_find is_finished_export tasks = Inr t
      \<and> js_opt_get (js_opt_get t ''result'') ''files'' = JArr (f # fs)
      \<and> truthy f"
  have "fst (handler env usvc ev) =
           \<lparr>statusCode = 200,
             json = JObj [(''downloadUrl'', js_opt_get f ''url''),
                          (''filename'', js_opt_get f ''filename''),
                          (''sizeBytes'', js_opt_get f ''size''),
                          (''contentType'', js_opt_get f ''content_type'')]\<rparr>"
    using h handler_success[of ev parsed env apiKey usvc jobRes_data m jdata tasks t f fs] by simp
  then show "is_success_of f (fst (handler env usvc ev))"
    by (simp add: is_success_of_def)
next
  assume h: "file_field req = Some upfile \<and> mimetype upfile \<notin> set banned
      \<and> length (buffer upfile) \<le> MAX_FILE_SIZE_MB uenv * 1024 * 1024
      \<and> js_opt_get (req_body req) ''target'' = JStr target
      \<and> map_of CONVERSION_MAP (mimetype upfile) = Some allowed
      \<and> toLowerCase target \<in> set allowed
      \<and> jobs_create svc = Inr job
      \<and> js_opt_get job ''tasks'' = JArr jtasks
      \<and> array_find (is_named ''import-1'') jtasks = Inr importTask
      \<and> truthy (js_opt_get importTask ''result'')
      \<and> js_opt_get (js_opt_get importTask ''result'') ''form'' = form
      \<and> form \<noteq> JUndefined \<and> form \<noteq> JNull
      \<and> upload_post svc = None
      \<and> jobs_wait svc = Inr completedJob
      \<and> js_opt_get completedJob ''tasks'' = JArr ctasks
      \<and> array_find is_finished_export ctasks = Inr et
      \<and> js_opt_get (js_opt_get et ''result'') ''files'' = JArr (uf # ufs)
      \<and> truthy uf"
  obtain meta where aw: "after_wait upfile (toLowerCase target) completedJob =
           Inr \<lparr>statusCode = 200,
                json = JObj [(''downloadUrl'', js_opt_get uf ''url''),
                             (''filename'', js_opt_get uf ''filename''),
                             (''sizeBytes'', js_opt_get uf ''size''),
                             (''contentType'', js_opt_get uf ''content_type''),
                             (''meta'', meta)]\<rparr>"
    using h after_wait_success[of completedJob ctasks et uf ufs upfile "toLowerCase target"] by blast
  have "fst (api_convert uenv svc req) =
           \<lparr>statusCode = 200,
                json = JObj [(''downloadUrl'', js_opt_get uf ''url''),
                             (''filename'', js_opt_get uf ''filename''),
                             (''sizeBytes'', js_opt_get uf ''size''),
                             (''contentType'', js_opt_get uf ''content_type''),
                             (''meta'', meta)]\<rparr>"
    using h aw api_convert_reaches_wait[of req upfile uenv target allowed svc job jtasks importTask
        form completedJob] by simp
  then show "is_success_of uf (fst (api_convert uenv svc req))"
    by (simp add: is_success_of_def)
qed

text \<open>
  Witness for C1: scenario A of the specification (finished at the third fetch) and a PNG
  upload converted to PDF.
\<close>

theorem success_returns_first_file_witness:
  "is_success_of ex_file (fst (handler ex_env (ex_url_service (ex_get 2 ex_finished)) ex_event))
   \<and> is_success_of ex_file
        (fst (api_convert ex_env
                (ex_upload_service (ex_job ex_import_task) (ex_completed ex_done_tasks))
                (ex_request ''image/png'' (JStr ''PDF''))))"
proof -
  have url: "httpMethod ex_event = ''POST'' \<and> body ex_event = Json ex_parsed
      \<and> truthy (js_opt_get ex_parsed ''fileUrl'') \<and> truthy (js_opt_get ex_parsed ''target'')
      \<and> CLOUDCONVERT_API_KEY ex_env = Some ''key'' \<and> ''key'' \<noteq> []
      \<and> axios_post (ex_url_service (ex_get 2 ex_finished)) = Inr ex_pending
      \<and> truthy (js_opt_get (js_opt_get ex_pending ''data'') ''id'')
      \<and> (2::nat) < 40 \<and> (\<forall>q<2. quiet (axios_get (ex_url_service (ex_get 2 ex_finished)) q))
      \<and> axios_get (ex_url_service (ex_get 2 ex_finished)) 2 = Inr ex_finished
      \<and> js_opt_get (js_opt_get ex_finished ''data'') ''tasks'' = JArr ex_done_tasks
      \<and> array_find is_finished_export ex_done_tasks = Inr ex_export_task
      \<and> js_opt_get (js_opt_get ex_export_task ''result'') ''files'' = JArr (ex_file # [])
      \<and> truthy ex_file"
    using ex_get_quiet[of 2 ex_finished]
    by (simp add: ex_event_facts ex_env_facts ex_service_facts ex_get_final
        ex_finished_tasks ex_find_export ex_export_files ex_file_truthy)
  have upl: "file_field (ex_request ''image/png'' (JStr ''PDF'')) = Some (ex_upload ''image/png'')
      \<and> mimetype (ex_upload ''image/png'') \<notin> set banned
      \<and> length (buffer (ex_upload ''image/png'')) \<le> MAX_FILE_SIZE_MB ex_env * 1024 * 1024
      \<and> js_opt_get (req_body (ex_request ''image/png'' (JStr ''PDF''))) ''target'' = JStr ''PDF''
      \<and> map_of CONVERSION_MAP (mimetype (ex_upload ''image/png''))
            = Some [''jpg'', ''webp'', ''pdf'', ''png'']
      \<and> toLowerCase ''PDF'' \<in> set [''jpg'', ''webp'', ''pdf'', ''png'']
      \<and> jobs_create (ex_upload_service (ex_job ex_import_task) (ex_completed ex_done_tasks))
            = Inr (ex_job ex_import_task)
      \<and> js_opt_get (ex_job ex_import_task) ''tasks'' = JArr (ex_job_tasks ex_import_task)
      \<and> array_find (is_named ''import-1'') (ex_job_tasks ex_import_task) = Inr ex_import_task
      \<and> truthy (js_opt_get ex_import_task ''result'')
      \<and> js_opt_get (js_opt_get ex_import_task ''result'') ''form'' = ex_form
      \<and> ex_form \<noteq> JUndefined \<and> ex_form \<noteq> JNull
      \<and> upload_post (ex_upload_service (ex_job ex_import_task) (ex_completed ex_done_tasks)) = None
      \<and> jobs_wait (ex_upload_service (ex_job ex_import_task) (ex_completed ex_done_tasks))
            = Inr (ex_completed ex_done_tasks)
      \<and> js_opt_get (ex_completed ex_done_tasks) ''tasks'' = JArr ex_done_tasks
      \<and> array_find is_finished_export ex_done_tasks = Inr ex_export_task
      \<and> js_opt_get (js_opt_get ex_export_task ''result'') ''files'' = JArr (ex_file # [])
      \<and> truthy ex_file"
    by (simp add: ex_request_facts ex_png ex_lower ex_upload_service_facts ex_job_facts ex_find_import
        ex_import_facts ex_completed_tasks ex_find_export ex_export_files ex_file_truthy)
  show ?thesis
    using url upl
      success_returns_first_file[where ev = ex_event and parsed = ex_parsed and env = ex_env
        and apiKey = "''key''" and usvc = "ex_url_service (ex_get 2 ex_finished)"
        and jobRes_data = ex_pending and m = 2 and jdata = ex_finished and tasks = ex_done_tasks
        and t = ex_export_task and f = ex_file and fs = "[]"
        and req = "ex_request ''image/png'' (JStr ''PDF'')" and upfile = "ex_upload ''image/png''"
        and uenv = ex_env and target = "''PDF''" and allowed = "[''jpg'', ''webp'', ''pdf'', ''png'']"
        and svc = "ex_upload_service (ex_job ex_import_task) (ex_completed ex_done_tasks)"
        and job = "ex_job ex_import_task" and jtasks = "ex_job_tasks ex_import_task"
        and importTask = ex_import_task and form = ex_form
        and completedJob = "ex_completed ex_done_tasks" and ctasks = ex_done_tasks
        and et = ex_export_task and uf = ex_file and ufs = "[]"]
    by blast
qed

subsection \<open>The polling budget\<close>

text \<open>
  Claim C2. The polling loop of the remote-URL handler makes at most 40 status fetches; its
  effects are exactly one 1500 ms sleep followed by one fetch per attempt; it stops at the
  first attempt whose answer shows the finished export task with an output file or has the
  job status \<^verbatim>\<open>"error"\<close>: if attempt \<open>m\<close> (counted from 0) is the first such, after attempts
  that show nothing, exactly \<open>m + 1\<close> fetches are made; and when all 40 attempts show nothing,
  40 fetches are made. The conditions are read off the answers themselves (the status
  field, the task list). The loop is the total function \<open>poll\<close>, so it always ends.
\<close>

theorem polling_is_bounded:
  "fetches (snd (poll get apiKey jobId 0 False JNull)) \<le> 40
   \<and> snd (poll get apiKey jobId 0 False JNull) =
       concat (replicate (fetches (snd (poll get apiKey jobId 0 False JNull)))
                 [Sleep 1500, GetJob apiKey jobId])
   \<and> (\<forall>m<40. (\<forall>q<m. shows_nothing (get q)) \<and> (shows_file (get m) \<or> shows_error (get m))
         \<longrightarrow> fetches (snd (poll get apiKey jobId 0 False JNull)) = Suc m)
   \<and> ((\<forall>q<40. shows_nothing (get q))
         \<longrightarrow> fetches (snd (poll get apiKey jobId 0 False JNull)) = 40)"
proof -
  let ?tr = "snd (poll get apiKey jobId 0 False JNull)"
  have shape: "\<exists>n\<le>40. ?tr = rounds apiKey jobId n"
    using poll_cases[of get]
  proof
    assume "\<exists>m<40. (\<forall>q<m. quiet (get q)) \<and> \<not> quiet (get m)"
    then obtain m where "m < 40" "\<forall>q<m. quiet (get q)" "\<not> quiet (get m)" by blast
    then have "?tr = rounds apiKey jobId (Suc m)" by (simp add: poll_first_stop)
    then show ?thesis using \<open>m < 40\<close> by (metis Suc_leI)
  next
    assume "\<forall>q<40. quiet (get q)"
    then have "?tr = rounds apiKey jobId 40" by (simp add: poll_all_quiet)
    then show ?thesis by blast
  qed
  then obtain n where n: "n \<le> 40" "?tr = rounds apiKey jobId n" by blast
  have f: "fetches ?tr = n" using n(2) by (simp add: fetches_rounds)
  have early: "\<forall>m<40. (\<forall>q<m. shows_nothing (get q)) \<and> (shows_file (get m) \<or> shows_error (get m))
         \<longrightarrow> fetches ?tr = Suc m"
  proof (intro allI impI)
    fix m assume "m < 40"
      and h: "(\<forall>q<m. shows_nothing (get q)) \<and> (shows_file (get m) \<or> shows_error (get m))"
    have "\<not> quiet (get m)"
      using h shows_file_not_quiet shows_error_not_quiet by blast
    moreover have "\<forall>q<m. quiet (get q)" using h by (simp add: shows_nothing_quiet)
    ultimately have "?tr = rounds apiKey jobId (Suc m)"
      using \<open>m < 40\<close> poll_first_stop[of m get apiKey jobId JNull] by simp
    then show "fetches ?tr = Suc m" by (simp add: fetches_rounds)
  qed
  have full: "(\<forall>q<40. shows_nothing (get q)) \<longrightarrow> fetches ?tr = 40"
  proof
    assume "\<forall>q<40. shows_nothing (get q)"
    then have "\<forall>q<40. quiet (get q)" by (simp add: shows_nothing_quiet)
    then have "?tr = rounds apiKey jobId 40" by (simp add: poll_all_quiet)
    then show "fetches ?tr = 40" by (simp add: fetches_rounds)
  qed
  have c1: "fetches ?tr \<le> 40" using n(1) f by simp
  have c2: "?tr = concat (replicate (fetches ?tr) [Sleep 1500, GetJob apiKey jobId])"
    unfolding f using n(2) by (simp only: rounds_def)
  show ?thesis using c1 c2 early full by blast
qed

text \<open>
  Witness for C2: two answers of a running job and then the finished one (three fetches);
  one answer of a running job and then one with the status \<^verbatim>\<open>"error"\<close> and no file (two
  fetches); and a job still running after 40 fetches.
\<close>

theorem polling_is_bounded_witness:
  "shows_nothing (ex_get 2 ex_finished 0) \<and> shows_nothing (ex_get 2 ex_finished 1)
   \<and> shows_file (ex_get 2 ex_finished 2)
   \<and> snd (poll (ex_get 2 ex_finished) ''key'' (JStr ''j1'') 0 False JNull) =
       [Sleep 1500, GetJob ''key'' (JStr ''j1''), Sleep 1500, GetJob ''key'' (JStr ''j1''),
        Sleep 1500, GetJob ''key'' (JStr ''j1'')]
   \<and> shows_nothing (ex_get 1 ex_failed 0)
   \<and> ex_get 1 ex_failed 1 = Inr ex_failed
   \<and> js_opt_get (js_opt_get ex_failed ''data'') ''status'' = JStr ''error''
   \<and> shows_error (ex_get 1 ex_failed 1)
   \<and> snd (poll (ex_get 1 ex_failed) ''key'' (JStr ''j1'') 0 False JNull) =
       [Sleep 1500, GetJob ''key'' (JStr ''j1''), Sleep 1500, GetJob ''key'' (JStr ''j1'')]
   \<and> shows_nothing (ex_get 40 ex_finished 0) \<and> shows_nothing (ex_get 40 ex_finished 39)
   \<and> fetches (snd (poll (ex_get 40 ex_finished) ''key'' (JStr ''j1'') 0 False JNull)) = 40"
proof -
  have p: "\<forall>q<n. shows_nothing (ex_get n final q)" for n final
    by (simp add: ex_get_def ex_shows)
  have f: "shows_file (ex_get 2 ex_finished 2)" by (simp add: ex_get_final ex_shows)
  have e: "shows_error (ex_get 1 ex_failed 1)" by (simp add: ex_get_final ex_shows)
  have b2: "(2::nat) < 40" by simp
  have n3: "fetches (snd (poll (ex_get 2 ex_finished) ''key'' (JStr ''j1'') 0 False JNull)) = Suc 2"
    using polling_is_bounded[of "ex_get 2 ex_finished" "''key''" "JStr ''j1''"] p[of 2 ex_finished] f b2
    by blast
  have t3: "snd (poll (ex_get 2 ex_finished) ''key'' (JStr ''j1'') 0 False JNull) =
       concat (replicate (Suc 2) [Sleep 1500, GetJob ''key'' (JStr ''j1'')])"
    using polling_is_bounded[of "ex_get 2 ex_finished" "''key''" "JStr ''j1''"] n3 by simp
  have b1: "(1::nat) < 40" by simp
  have n2: "fetches (snd (poll (ex_get 1 ex_failed) ''key'' (JStr ''j1'') 0 False JNull)) = Suc 1"
    using polling_is_bounded[of "ex_get 1 ex_failed" "''key''" "JStr ''j1''"] p[of 1 ex_failed] e b1
    by blast
  have t2: "snd (poll (ex_get 1 ex_failed) ''key'' (JStr ''j1'') 0 False JNull) =
       concat (replicate (Suc 1) [Sleep 1500, GetJob ''key'' (JStr ''j1'')])"
    using polling_is_bounded[of "ex_get 1 ex_failed" "''key''" "JStr ''j1''"] n2 by simp
  have n40: "fetches (snd (poll (ex_get 40 ex_finished) ''key'' (JStr ''j1'') 0 False JNull)) = 40"
    using polling_is_bounded[of "ex_get 40 ex_finished" "''key''" "JStr ''j1''"] p[of 40 ex_finished]
    by blast
  have ps: "shows_nothing (ex_get 2 ex_finished 0)" "shows_nothing (ex_get 2 ex_finished 1)"
    "shows_nothing (ex_get 1 ex_failed 0)"
    "shows_nothing (ex_get 40 ex_finished 0)" "shows_nothing (ex_get 40 ex_finished 39)"
    using p[of 2 ex_finished] p[of 1 ex_failed] p[of 40 ex_finished] by simp_all
  show ?thesis
    using ps f e t3 t2 n40 ex_shows(4) by (simp add: numeral_2_eq_2 ex_get_final)
qed

subsection \<open>Failure of a conversion\<close>



subsection \<open>Validation before any call\<close>

text \<open>
  Claim C4, as the code has it. An upload request that fails validation (no file, empty
  target, content type that is no key of the table, target outside the content type's
  list, or banned content type) is answered with status 400 or 500 and without any effect
  on the outside: no job is created. The answer is the client-input error 400 when the
  upload middleware accepts the file part (content type not banned, size within the limit),
  the content type is not the name of an inherited property, and the \<^verbatim>\<open>target\<close> field is a
  single text value or missing. A banned content type is refused by the upload filter: the
  route handler does not run, and the final error handler answers with status 500.
\<close>

theorem validation_rejects_before_any_call:
  assumes "fails_validation req"
  shows "snd (api_convert env svc req) = []
         \<and> statusCode (fst (api_convert env svc req)) \<in> {400, 500}
         \<and> (plain_upload env req \<and> text_target req
              \<longrightarrow> statusCode (fst (api_convert env svc req)) = 400)
         \<and> ((case file_field req of None \<Rightarrow> False | Some upfile \<Rightarrow> mimetype upfile \<in> set banned)
              \<longrightarrow> api_convert env svc req =
                    (\<lparr>statusCode = 500, json = JObj [(''error'', JStr ''Unhandled error'')]\<rparr>, []))"
proof (cases "file_field req")
  case None
  then show ?thesis
    by (simp add: api_convert_def upload_single_def route_no_file badRequest_def)
next
  case (Some upfile)
  show ?thesis
  proof (cases "upload_single env req")
    case (Inl e)
    then have a: "api_convert env svc req =
        (\<lparr>statusCode = 500, json = JObj [(''error'', JStr ''Unhandled error'')]\<rparr>, [])"
      by (simp add: api_convert_def)
    have "\<not> plain_upload env req"
      using Inl Some by (auto simp: plain_upload_def upload_single_def fileFilter_def split: if_splits)
    then show ?thesis using a by simp
  next
    case (Inr accepted)
    then have acc: "accepted = Some upfile" "mimetype upfile \<notin> set banned"
      using Some by (auto simp: upload_single_def fileFilter_def split: if_splits)
    have r: "api_convert env svc req = convert_route env svc (Some upfile) (req_body req)"
      using Inr acc by (simp add: api_convert_def)
    have "\<not> truthy (js_opt_get (req_body req) ''target'')
           \<or> map_of CONVERSION_MAP (mimetype upfile) = None
           \<or> (\<exists>t allowed. js_opt_get (req_body req) ''target'' = JStr t
                 \<and> map_of CONVERSION_MAP (mimetype upfile) = Some allowed
                 \<and> toLowerCase t \<notin> set allowed)"
      using assms Some acc(2)
      by (auto simp: fails_validation_def split: jsval.splits option.splits)
    then have rr: "snd (convert_route env svc (Some upfile) (req_body req)) = []
         \<and> statusCode (fst (convert_route env svc (Some upfile) (req_body req))) \<in> {400, 500}
         \<and> (mimetype upfile \<notin> set Object_prototype_names
              \<and> (\<not> truthy (js_opt_get (req_body req) ''target'')
                   \<or> (\<exists>t. js_opt_get (req_body req) ''target'' = JStr t))
            \<longrightarrow> statusCode (fst (convert_route env svc (Some upfile) (req_body req))) = 400)"
      by (rule route_rejects)
    have p: "plain_upload env req \<Longrightarrow> mimetype upfile \<notin> set Object_prototype_names"
      using Some by (simp add: plain_upload_def)
    have tt: "text_target req \<Longrightarrow> \<not> truthy (js_opt_get (req_body req) ''target'')
                   \<or> (\<exists>t. js_opt_get (req_body req) ''target'' = JStr t)"
      by (auto simp: text_target_def split: jsval.splits)
    show ?thesis using rr r p tt Some acc(2) by auto
  qed
qed

text \<open>
  Witness for C4: scenario C of the specification (a PNG image with the target \<^verbatim>\<open>mp4\<close>)
  and the upload of a shell script.
\<close>

theorem validation_rejects_before_any_call_witness:
  "fails_validation (ex_request ''image/png'' (JStr ''mp4''))
   \<and> plain_upload ex_env (ex_request ''image/png'' (JStr ''mp4''))
   \<and> text_target (ex_request ''image/png'' (JStr ''mp4''))
   \<and> snd (api_convert ex_env ex_service (ex_request ''image/png'' (JStr ''mp4''))) = []
   \<and> statusCode (fst (api_convert ex_env ex_service (ex_request ''image/png'' (JStr ''mp4'')))) = 400
   \<and> fails_validation (ex_request ''application/x-sh'' (JStr ''pdf''))
   \<and> mimetype (ex_upload ''application/x-sh'') \<in> set banned
   \<and> api_convert ex_env ex_service (ex_request ''application/x-sh'' (JStr ''pdf'')) =
        (\<lparr>statusCode = 500, json = JObj [(''error'', JStr ''Unhandled error'')]\<rparr>, [])"
proof -
  have p: "plain_upload ex_env (ex_request ''image/png'' (JStr ''mp4''))"
    by (simp add: plain_upload_def ex_request_facts banned_def Object_prototype_names_def)
  have t: "text_target (ex_request ''image/png'' (JStr ''mp4''))"
    by (simp add: text_target_def ex_request_facts)
  have b: "mimetype (ex_upload ''application/x-sh'') \<in> set banned"
    by (simp add: ex_request_facts banned_def)
  then have b': "(case file_field (ex_request ''application/x-sh'' (JStr ''pdf'')) of
                   None \<Rightarrow> False | Some upfile \<Rightarrow> mimetype upfile \<in> set banned)"
    by (simp add: ex_request_facts)
  show ?thesis
    using validation_rejects_before_any_call[OF ex_fails(1), of ex_env ex_service]
      validation_rejects_before_any_call[OF ex_fails(2), of ex_env ex_service]
      ex_fails(1,2) p t b b'
    by blast
qed

text \<open>
  C4 as stated fails: these requests fail validation and are answered with status 500, not
  with a client-input error: a banned content type; the content type \<^verbatim>\<open>constructor\<close>; an
  unsupported content type with the \<^verbatim>\<open>target\<close> field sent twice; a missing target with a file
  over the size limit.
\<close>

theorem validation_counterexample:
  "fails_validation (ex_request ''application/x-sh'' (JStr ''pdf''))
   \<and> statusCode (fst (api_convert ex_env ex_service
         (ex_request ''application/x-sh'' (JStr ''pdf'')))) = 500
   \<and> fails_validation (ex_request ''constructor'' (JStr ''pdf''))
   \<and> statusCode (fst (api_convert ex_env ex_service
         (ex_request ''constructor'' (JStr ''pdf'')))) = 500
   \<and> fails_validation (ex_request ''image/gif'' (JArr [JStr ''pdf'', JStr ''png'']))
   \<and> statusCode (fst (api_convert ex_env ex_service
         (ex_request ''image/gif'' (JArr [JStr ''pdf'', JStr ''png''])))) = 500
   \<and> fails_validation (ex_request ''image/png'' (JStr []))
   \<and> statusCode (fst (api_convert ex_env_tiny_limit ex_service
         (ex_request ''image/png'' (JStr [])))) = 500"
proof -
  have a: "statusCode (fst (api_convert ex_env ex_service
         (ex_request ''application/x-sh'' (JStr ''pdf'')))) = 500"
    by (simp add: api_convert_def upload_single_def fileFilter_def ex_request_facts banned_def)
  have u: "upload_single ex_env (ex_request mime target) = Inr (Some (ex_upload mime))"
    if "mime \<notin> set banned" for mime target
    using that
    by (simp add: upload_single_def fileFilter_def ex_request_facts)
  have nb: "''constructor'' \<notin> set banned" "''image/gif'' \<notin> set banned"
    by (simp_all add: banned_def)
  have c: "CONVERSION_MAP_get ''constructor'' = Inherited"
    by (simp add: CONVERSION_MAP_get_def ex_not_key Object_prototype_names_def)
  have pdf: "JStr ''pdf'' = JStr ''pdf''" "''pdf'' \<noteq> []" by simp_all
  have b: "statusCode (fst (api_convert ex_env ex_service
         (ex_request ''constructor'' (JStr ''pdf'')))) = 500"
    using route_text_target[of "req_body (ex_request ''constructor'' (JStr ''pdf''))" "''pdf''"
        ex_env ex_service "ex_upload ''constructor''"]
    by (simp add: api_convert_def u[OF nb(1)] ex_request_facts c serverError_def)
  have d: "statusCode (fst (api_convert ex_env ex_service
         (ex_request ''image/gif'' (JArr [JStr ''pdf'', JStr ''png''])))) = 500"
    using route_bad_target_value[of "JArr [JStr ''pdf'', JStr ''png'']"
        "req_body (ex_request ''image/gif'' (JArr [JStr ''pdf'', JStr ''png'']))"
        ex_env ex_service "ex_upload ''image/gif''"]
    by (simp add: api_convert_def u[OF nb(2)] ex_request_facts)
  have e: "statusCode (fst (api_convert ex_env_tiny_limit ex_service
         (ex_request ''image/png'' (JStr [])))) = 500"
    by (simp add: api_convert_def upload_single_def fileFilter_def ex_request_facts ex_png
        MAX_FILE_SIZE_MB_def ex_env_tiny_limit_def)
  show ?thesis using a b d e ex_fails by simp
qed

subsection \<open>The upload handshake\<close>




subsection \<open>The missing credential\<close>

text \<open>
  Claim C6, as the code has it. In remote-URL mode a request handled while
  \<^verbatim>\<open>CLOUDCONVERT_API_KEY\<close> is absent gets an answer (status 405, 400 or 500) and makes no
  call to the outside; when it is a POST whose body has a non-empty \<^verbatim>\<open>fileUrl\<close> and \<^verbatim>\<open>target\<close>,
  the answer is status 500 with the error \<^verbatim>\<open>"Missing CLOUDCONVERT_API_KEY"\<close>.
\<close>

theorem missing_credential_is_reported:
  assumes "CLOUDCONVERT_API_KEY env = None"
  shows "snd (handler env svc ev) = []
         \<and> statusCode (fst (handler env svc ev)) \<in> {405, 400, 500}
         \<and> (httpMethod ev = ''POST'' \<and> body ev = Json parsed
              \<and> truthy (js_opt_get parsed ''fileUrl'') \<and> truthy (js_opt_get parsed ''target'')
            \<longrightarrow> fst (handler env svc ev) =
                  \<lparr>statusCode = 500,
                   json = JObj [(''error'', JStr ''Missing CLOUDCONVERT_API_KEY'')]\<rparr>)"
proof -
  have a: "snd (handler env svc ev) = [] \<and> statusCode (fst (handler env svc ev)) \<in> {405, 400, 500}"
    using assms
    by (auto simp: handler_def handler_try_def split: sum.splits)
  have b: "fst (handler env svc ev) =
                  \<lparr>statusCode = 500,
                   json = JObj [(''error'', JStr ''Missing CLOUDCONVERT_API_KEY'')]\<rparr>"
    if "httpMethod ev = ''POST''" "body ev = Json parsed"
       "truthy (js_opt_get parsed ''fileUrl'')" "truthy (js_opt_get parsed ''target'')"
    using that assms by (simp add: handler_def handler_try_def js_get_truthy)
  show ?thesis using a b by blast
qed

text \<open>
  Witness for C6: the request of scenario A without the credential.
\<close>

theorem missing_credential_is_reported_witness:
  "CLOUDCONVERT_API_KEY ex_env_no_key = None
   \<and> httpMethod ex_event = ''POST'' \<and> body ex_event = Json ex_parsed
   \<and> truthy (js_opt_get ex_parsed ''fileUrl'') \<and> truthy (js_opt_get ex_parsed ''target'')
   \<and> handler ex_env_no_key (ex_url_service (ex_get 2 ex_finished)) ex_event =
       (\<lparr>statusCode = 500, json = JObj [(''error'', JStr ''Missing CLOUDCONVERT_API_KEY'')]\<rparr>, [])"
proof -
  have k: "CLOUDCONVERT_API_KEY ex_env_no_key = None" by (simp add: ex_env_no_key_def)
  show ?thesis
    using missing_credential_is_reported[OF k, of "ex_url_service (ex_get 2 ex_finished)" ex_event
        ex_parsed] k ex_event_facts
    by (simp add: prod_eq_iff)
qed

text \<open>
  C6 as stated fails: without the credential, a GET request to the remote-URL handler is
  answered 405 \<^verbatim>\<open>"Use POST"\<close>, which does not name the credential; and the upload route
  issues the job creation with the missing credential and passes on the service's refusal.
\<close>

theorem missing_credential_counterexample:
  "CLOUDCONVERT_API_KEY ex_env_no_key = None
   \<and> startup_warnings ex_env_no_key =
       [''[WARN] CLOUDCONVERT_API_KEY is missing. Set it in your .env'']
   \<and> handler ex_env_no_key (ex_url_service (ex_get 2 ex_finished))
        \<lparr>httpMethod = ''GET'', body = NoBody\<rparr> =
       (\<lparr>statusCode = 405, json = JObj [(''error'', JStr ''Use POST'')]\<rparr>, [])
   \<and> api_convert ex_env_no_key ex_unauthorized (ex_request ''image/png'' (JStr ''PDF'')) =
       (\<lparr>statusCode = 401,
         json = JObj [(''error'', JStr ''Upstream conversion error.''),
                      (''details'', JObj [(''status'', JNum 401),
                         (''data'', JObj [(''message'', JStr ''Unauthenticated.'')])])]\<rparr>,
        [JobsCreate None ''pdf''])"
proof -
  have k: "CLOUDCONVERT_API_KEY ex_env_no_key = None" by (simp add: ex_env_no_key_def)
  have g: "handler ex_env_no_key (ex_url_service (ex_get 2 ex_finished))
        \<lparr>httpMethod = ''GET'', body = NoBody\<rparr> =
       (\<lparr>statusCode = 405, json = JObj [(''error'', JStr ''Use POST'')]\<rparr>, [])"
    by (simp add: handler_def handler_try_def)
  have u: "api_convert ex_env_no_key ex_unauthorized (ex_request ''image/png'' (JStr ''PDF'')) =
       (\<lparr>statusCode = 401,
         json = JObj [(''error'', JStr ''Upstream conversion error.''),
                      (''details'', JObj [(''status'', JNum 401),
                         (''data'', JObj [(''message'', JStr ''Unauthenticated.'')])])]\<rparr>,
        [JobsCreate None ''pdf''])"
    by (simp add: api_convert_def convert_route_def
        upload_single_accepts[OF ex_request_facts(1) ex_accepted(1,3)]
        convert_try_reaches_create[OF ex_request_facts(3) ex_accepted(4,5)]
        ex_unauthorized_def ex_lower k js_or_def)
  have w: "startup_warnings ex_env_no_key =
       [''[WARN] CLOUDCONVERT_API_KEY is missing. Set it in your .env'']"
    by (simp add: startup_warnings_def k)
  show ?thesis using k g u w by simp
qed

subsection \<open>A finished job without output\<close>



subsection \<open>The validation gate\<close>

text \<open>
  Claim C8 says that \<^verbatim>\<open>isTargetAllowed\<close> returns \<^verbatim>\<open>false\<close> for every content type that is no
  key of the table. The code does so only when the lookup \<^verbatim>\<open>CONVERSION_MAP[mime]\<close> finds
  nothing; for \<^verbatim>\<open>constructor\<close>, which is no key of the table, the lookup finds the property
  that every object inherits, and the call of \<^verbatim>\<open>allowed.includes\<close> throws a TypeError.
\<close>

theorem inherited_name_is_not_rejected:
  "map_of CONVERSION_MAP ''constructor'' = None
   \<and> isTargetAllowed ''constructor'' ''pdf'' = Inl (TypeError ''allowed.includes is not a function'')
   \<and> isTargetAllowed ''constructor'' ''pdf'' \<noteq> Inr False"
  by (simp add: isTargetAllowed_def CONVERSION_MAP_get_def CONVERSION_MAP_def
      Object_prototype_names_def)

text \<open>
  Claim C9. When \<open>t\<close> is in the list of the content type, \<^verbatim>\<open>isTargetAllowed\<close> returns
  \<^verbatim>\<open>true\<close> for every target that differs from \<open>t\<close> at most in the case of its letters.
\<close>

theorem validate_ignores_case:
  assumes "map_of CONVERSION_MAP contentType = Some allowed"
    and "t \<in> set allowed"
    and "same_ignoring_case target t"
  shows "isTargetAllowed contentType target = Inr True"
proof -
  have "toLowerCase t = t" using table_targets[OF assms(1,2)] by simp
  then have "toLowerCase target = t" using assms(3) by (rule lower_of_same_ignoring_case[rotated])
  then show ?thesis using assms(1,2) by (simp add: isTargetAllowed_def get_Targets)
qed

text \<open>
  Witness for C9: \<^verbatim>\<open>PDF\<close> and \<^verbatim>\<open>pdf\<close> for a PNG image.
\<close>

theorem validate_ignores_case_witness:
  "map_of CONVERSION_MAP ''image/png'' = Some [''jpg'', ''webp'', ''pdf'', ''png'']
   \<and> same_ignoring_case ''PDF'' ''pdf'' \<and> same_ignoring_case ''pdf'' ''pdf''
   \<and> isTargetAllowed ''image/png'' ''PDF'' = Inr True
   \<and> isTargetAllowed ''image/png'' ''pdf'' = Inr True"
proof -
  have m: "''pdf'' \<in> set [''jpg'', ''webp'', ''pdf'', ''png'']" by simp
  show ?thesis
    using validate_ignores_case[OF ex_png(2) m ex_same(1)]
      validate_ignores_case[OF ex_png(2) m ex_same(2)] ex_png(2) ex_same
    by simp
qed

subsection \<open>A file and an error in one answer\<close>

text \<open>
  Claim C10. When one status answer shows both the finished export task with an output file
  and the job status \<^verbatim>\<open>"error"\<close>, the remote-URL handler answers with the success built from
  that file, and the loop ends with that fetch.
\<close>

theorem error_with_file_is_success:
  assumes "httpMethod ev = ''POST''" and "body ev = Json parsed"
    and "truthy (js_opt_get parsed ''fileUrl'')" and "truthy (js_opt_get parsed ''target'')"
    and "CLOUDCONVERT_API_KEY env = Some apiKey" and "apiKey \<noteq> []"
    and "axios_post svc = Inr jobRes_data"
    and "truthy (js_opt_get (js_opt_get jobRes_data ''data'') ''id'')"
    and "m < 40" and "\<forall>q<m. quiet (axios_get svc q)"
    and "axios_get svc m = Inr jdata"
    and "js_opt_get (js_opt_get jdata ''data'') ''tasks'' = JArr tasks"
    and "array_find is_finished_export tasks = Inr t"
    and "js_opt_get (js_opt_get t ''result'') ''files'' = JArr (f # fs)"
    and "truthy f"
    and "js_opt_get (js_opt_get jdata ''data'') ''status'' = JStr ''error''"
  shows "is_success_of f (fst (handler env svc ev))
         \<and> fetches (snd (handler env svc ev)) = Suc m"
  using handler_success[OF assms(1-15)]
  by (simp add: is_success_of_def fetches_def fetches_rounds[unfolded fetches_def])

text \<open>
  Witness for C10: the second fetch shows the status \<^verbatim>\<open>"error"\<close> and the finished export
  task.
\<close>

theorem error_with_file_is_success_witness:
  "js_opt_get (js_opt_get ex_failed_with_file ''data'') ''status'' = JStr ''error''
   \<and> js_opt_get (js_opt_get ex_failed_with_file ''data'') ''tasks'' = JArr ex_done_tasks
   \<and> array_find is_finished_export ex_done_tasks = Inr ex_export_task
   \<and> js_opt_get (js_opt_get ex_export_task ''result'') ''files'' = JArr [ex_file]
   \<and> is_success_of ex_file
        (fst (handler ex_env (ex_url_service (ex_get 1 ex_failed_with_file)) ex_event))
   \<and> fetches (snd (handler ex_env (ex_url_service (ex_get 1 ex_failed_with_file)) ex_event)) = 2"
proof -
  have s: "js_opt_get (js_opt_get ex_failed_with_file ''data'') ''status'' = JStr ''error''"
    by (simp add: ex_failed_with_file_def)
  have q: "\<forall>q<1. quiet (axios_get (ex_url_service (ex_get 1 ex_failed_with_file)) q)"
    using ex_get_quiet[of 1 ex_failed_with_file] by (simp add: ex_service_facts)
  have g: "axios_get (ex_url_service (ex_get 1 ex_failed_with_file)) 1 = Inr ex_failed_with_file"
    by (simp add: ex_service_facts ex_get_final)
  have b: "(1::nat) < 40" by simp
  show ?thesis
    using error_with_file_is_success[OF ex_event_facts ex_env_facts ex_service_facts(1,2) b q g
        ex_failed_with_file_tasks ex_find_export ex_export_files ex_file_truthy s]
      s ex_failed_with_file_tasks ex_find_export ex_export_files
    by simp
qed

end
